theory Spec2Isabelle
  imports Main "HOL-Library.Sublist"
begin

section \<open>Python values and strings\<close>

text \<open>
  A string is a list of characters, and the model has the characters of one byte: text
  with other characters is outside it. \<open>lower\<close> is the ASCII case mapping, which is what
  SQL \<open>lower\<close> does in SQLite. Python's \<open>str.upper\<close> is a parameter of the tools
  (\<open>upper\<close>); \<open>upper_ascii\<close>, which agrees with it on ASCII text, is its value in the
  examples.
\<close>

definition upper_char :: "char \<Rightarrow> char" where
  "upper_char c =
     (case map_of (zip ''abcdefghijklmnopqrstuvwxyz'' ''ABCDEFGHIJKLMNOPQRSTUVWXYZ'') c of
        None \<Rightarrow> c | Some d \<Rightarrow> d)"

definition lower_char :: "char \<Rightarrow> char" where
  "lower_char c =
     (case map_of (zip ''ABCDEFGHIJKLMNOPQRSTUVWXYZ'' ''abcdefghijklmnopqrstuvwxyz'') c of
        None \<Rightarrow> c | Some d \<Rightarrow> d)"

definition upper_ascii :: "string \<Rightarrow> string" where
  "upper_ascii s = map upper_char s"

definition lower :: "string \<Rightarrow> string" where
  "lower s = map lower_char s"

definition digit_char :: "nat \<Rightarrow> char" where
  "digit_char d = ''0123456789'' ! d"

text \<open>\<open>str(n)\<close> of an integer: its decimal digits, with a minus sign when negative.\<close>

fun str_nat :: "nat \<Rightarrow> string" where
  "str_nat n = (if n < 10 then [digit_char n] else str_nat (n div 10) @ [digit_char (n mod 10)])"

declare str_nat.simps [simp del]

definition str_int :: "int \<Rightarrow> string" where
  "str_int i = (if i < 0 then CHR ''-'' # str_nat (nat (- i)) else str_nat (nat i))"

text \<open>A string between single quotes, as in \<open>f"'{s}'"\<close>.\<close>

definition quoted :: "string \<Rightarrow> string" where
  "quoted s = CHR 0x27 # s @ [CHR 0x27]"

text \<open>\<open>"\n".join(lines)\<close>.\<close>

fun join_lines :: "string list \<Rightarrow> string" where
  "join_lines [] = []"
| "join_lines [l] = l"
| "join_lines (l # m # ls) = l @ CHR 0x0A # join_lines (m # ls)"

text \<open>
  The values a tool-call argument can carry according to the declared schemas
  (\<open>str\<close>, \<open>int\<close>, \<open>None\<close>), and a keyword-argument dictionary.
\<close>

datatype pyval = PNone | PStr string | PInt int

type_synonym kwargs = "(string \<times> pyval) list"

text \<open>Truthiness of an \<open>Optional[str]\<close> and of an \<open>Optional[int]\<close>.\<close>

fun truthy_str :: "string option \<Rightarrow> bool" where
  "truthy_str None = False"
| "truthy_str (Some s) = (s \<noteq> [])"

fun truthy_int :: "int option \<Rightarrow> bool" where
  "truthy_int None = False"
| "truthy_int (Some n) = (n \<noteq> 0)"

text \<open>Exceptions, each with the text \<open>str(e)\<close> gives.\<close>

datatype exn =
    AttributeError string
  | TypeError string
  | StoreError string
  | ModelInvocationError string
  | GraphRecursionError string
  | OtherError string

fun str_exn :: "exn \<Rightarrow> string" where
  "str_exn (AttributeError m) = m"
| "str_exn (TypeError m) = m"
| "str_exn (StoreError m) = m"
| "str_exn (ModelInvocationError m) = m"
| "str_exn (GraphRecursionError m) = m"
| "str_exn (OtherError m) = m"

section \<open>models.py: the task entity\<close>

datatype TaskStatus = TODO | IN_PROGRESS | DONE | CANCELLED

datatype TaskPriority = LOW | MEDIUM | HIGH | URGENT

fun status_value :: "TaskStatus \<Rightarrow> string" where
  "status_value TODO = ''todo''"
| "status_value IN_PROGRESS = ''in_progress''"
| "status_value DONE = ''done''"
| "status_value CANCELLED = ''cancelled''"

fun priority_value :: "TaskPriority \<Rightarrow> string" where
  "priority_value LOW = ''low''"
| "priority_value MEDIUM = ''medium''"
| "priority_value HIGH = ''high''"
| "priority_value URGENT = ''urgent''"

text \<open>\<open>TaskStatus[name]\<close> and \<open>TaskPriority[name]\<close>: lookup by member name; \<open>None\<close> is
  the \<open>KeyError\<close>.\<close>

definition TaskStatus_by_name :: "string \<Rightarrow> TaskStatus option" where
  "TaskStatus_by_name n =
     (if n = ''TODO'' then Some TODO
      else if n = ''IN_PROGRESS'' then Some IN_PROGRESS
      else if n = ''DONE'' then Some DONE
      else if n = ''CANCELLED'' then Some CANCELLED
      else None)"

definition TaskPriority_by_name :: "string \<Rightarrow> TaskPriority option" where
  "TaskPriority_by_name n =
     (if n = ''LOW'' then Some LOW
      else if n = ''MEDIUM'' then Some MEDIUM
      else if n = ''HIGH'' then Some HIGH
      else if n = ''URGENT'' then Some URGENT
      else None)"

text \<open>\<open>str(list(TaskStatus))\<close> and \<open>str(list(TaskPriority))\<close>, as the messages embed them.\<close>

definition list_TaskStatus :: string where
  "list_TaskStatus =
     ''[<TaskStatus.TODO: 'todo'>, <TaskStatus.IN_PROGRESS: 'in_progress'>, '' @
     ''<TaskStatus.DONE: 'done'>, <TaskStatus.CANCELLED: 'cancelled'>]''"

definition list_TaskPriority :: string where
  "list_TaskPriority =
     ''[<TaskPriority.LOW: 'low'>, <TaskPriority.MEDIUM: 'medium'>, '' @
     ''<TaskPriority.HIGH: 'high'>, <TaskPriority.URGENT: 'urgent'>]''"

text \<open>A point in time (\<open>datetime\<close>); only its order matters here.\<close>

type_synonym datetime = int

text \<open>A row of table \<open>tasks\<close>, which is also the mapped \<open>Task\<close> object.\<close>

record Task =
  row_id :: int
  row_title :: string
  row_description :: "string option"
  row_status :: TaskStatus
  row_due_date :: "datetime option"
  row_priority :: TaskPriority
  row_created_at :: datetime
  row_updated_at :: datetime

section \<open>The record store and its sessions\<close>

text \<open>
  Modelled from the spec: the record store behind \<open>SessionLocal\<close> of module
  \<open>app.database\<close>, which is not among the sources. The spec has it as an external store
  that the tools read and write inside a local transaction, whose changes persist
  together or not at all, and that can fail. Here it is the committed rows in storage
  order, the next primary key, the database's clock (\<open>func.now()\<close>), and a fault that,
  when present, makes every query and every commit raise.
\<close>

record database =
  rows :: "Task list"
  next_id :: int
  clock :: datetime
  store_fault :: "string option"

text \<open>
  Modelled from the spec: the session object \<open>SessionLocal()\<close> returns, with the
  operations the tools call on it. A session is a unit of work on the database: objects
  added, attribute changes to loaded objects and deletions stay in the session until
  \<open>commit\<close> writes them; \<open>rollback\<close> and \<open>close\<close> discard them.
\<close>

record session =
  bind :: database
  new :: "Task list"
  dirty :: "Task list"
  deleted :: "Task list"

definition get_db_session_for_tool :: "database \<Rightarrow> session" where
  "get_db_session_for_tool d = \<lparr>bind = d, new = [], dirty = [], deleted = []\<rparr>"

definition db_add :: "session \<Rightarrow> Task \<Rightarrow> session" where
  "db_add s t = s\<lparr>new := new s @ [t]\<rparr>"

text \<open>An attribute assignment on a loaded object: the session holds the object's new state.\<close>

definition db_set :: "session \<Rightarrow> Task \<Rightarrow> session" where
  "db_set s t = s\<lparr>dirty := t # filter (\<lambda>u. row_id u \<noteq> row_id t) (dirty s)\<rparr>"

definition db_delete :: "session \<Rightarrow> Task \<Rightarrow> session" where
  "db_delete s t = s\<lparr>deleted := deleted s @ [t]\<rparr>"

text \<open>INSERT: the database gives the key and both timestamps.\<close>

definition insert_row :: "database \<Rightarrow> Task \<Rightarrow> database" where
  "insert_row d t =
     d\<lparr>rows := rows d @ [t\<lparr>row_id := next_id d, row_created_at := clock d,
                              row_updated_at := clock d\<rparr>],
       next_id := next_id d + 1\<rparr>"

text \<open>UPDATE, emitted only for a row whose columns changed; \<open>onupdate\<close> sets \<open>updated_at\<close>.\<close>

definition update_row :: "database \<Rightarrow> Task \<Rightarrow> database" where
  "update_row d t =
     d\<lparr>rows := map (\<lambda>r. if row_id r = row_id t \<and> r \<noteq> t
                         then t\<lparr>row_updated_at := clock d\<rparr> else r) (rows d)\<rparr>"

definition delete_row :: "database \<Rightarrow> Task \<Rightarrow> database" where
  "delete_row d t = d\<lparr>rows := filter (\<lambda>r. row_id r \<noteq> row_id t) (rows d)\<rparr>"

definition flush :: "session \<Rightarrow> database" where
  "flush s = foldl delete_row (foldl update_row (foldl insert_row (bind s) (new s)) (dirty s))
               (deleted s)"

definition db_commit :: "session \<Rightarrow> exn + session" where
  "db_commit s =
     (case store_fault (bind s) of
        Some e \<Rightarrow> Inl (StoreError e)
      | None \<Rightarrow> Inr \<lparr>bind = flush s, new = [], dirty = [], deleted = []\<rparr>)"

definition db_rollback :: "session \<Rightarrow> session" where
  "db_rollback s = s\<lparr>new := [], dirty := [], deleted := []\<rparr>"

text \<open>\<open>close\<close> ends the session; what remains is the database as committed.\<close>

definition db_close :: "session \<Rightarrow> database" where
  "db_close s = bind s"

text \<open>\<open>db.query(Task).filter(p).first()\<close>: the first row, in storage order, satisfying \<open>p\<close>.\<close>

definition query_first :: "session \<Rightarrow> (Task \<Rightarrow> bool) \<Rightarrow> exn + Task option" where
  "query_first s p =
     (case store_fault (bind s) of
        Some e \<Rightarrow> Inl (StoreError e)
      | None \<Rightarrow> Inr (find p (rows (bind s))))"

text \<open>\<open>db.refresh(obj)\<close>: the object's state as the database has it.\<close>

definition db_refresh :: "session \<Rightarrow> int \<Rightarrow> exn + Task" where
  "db_refresh s i =
     (case store_fault (bind s) of
        Some e \<Rightarrow> Inl (StoreError e)
      | None \<Rightarrow>
          (case find (\<lambda>r. row_id r = i) (rows (bind s)) of
             None \<Rightarrow> Inl (StoreError ''Could not refresh instance'')
           | Some r \<Rightarrow> Inr r))"

text \<open>
  Modelled from the spec: the store's title match, which the tools ask for with
  \<open>Task.title.ilike(...)\<close>. SQL \<open>LIKE\<close>: in the pattern \<open>%\<close> matches any sequence of
  characters and \<open>_\<close> any single character (a character of the model); every other
  character matches itself (no escape character, as in SQLite). \<open>ilike\<close> compares the
  lower-cased sides.
\<close>

fun like :: "string \<Rightarrow> string \<Rightarrow> bool" where
  "like [] s = (s = [])"
| "like (p # ps) s =
     (if p = CHR ''%''
      then (like ps s \<or> (case s of [] \<Rightarrow> False | c # cs \<Rightarrow> like (p # ps) cs))
      else (case s of [] \<Rightarrow> False | c # cs \<Rightarrow> (p = CHR ''_'' \<or> p = c) \<and> like ps cs))"

definition ilike :: "string \<Rightarrow> string \<Rightarrow> bool" where
  "ilike s pat = like (lower pat) (lower s)"

text \<open>\<open>db.query(Task)...order_by(Task.created_at.desc()).all()\<close>.\<close>

definition query_all_desc :: "session \<Rightarrow> (Task \<Rightarrow> bool) \<Rightarrow> exn + Task list" where
  "query_all_desc s p =
     (case store_fault (bind s) of
        Some e \<Rightarrow> Inl (StoreError e)
      | None \<Rightarrow> Inr (sort_key (\<lambda>t. - row_created_at t) (filter p (rows (bind s)))))"

section \<open>tools.py: the task operations\<close>

text \<open>The dictionaries the tools return: a task's fields, and the result itself, whose
  keys \<open>status\<close>, \<open>message\<close>, \<open>task\<close> and \<open>tasks\<close> may each be absent.\<close>

record task_dict =
  d_id :: int
  d_title :: string
  d_description :: "string option"
  d_status :: string
  d_due_date :: "datetime option"
  d_priority :: string
  d_created_at :: datetime
  d_updated_at :: datetime

record response =
  r_status :: "string option"
  r_message :: "string option"
  r_task :: "task_dict option"
  r_tasks :: "task_dict list option"

definition task_to_dict :: "Task \<Rightarrow> task_dict" where
  "task_to_dict t =
     \<lparr>d_id = row_id t, d_title = row_title t, d_description = row_description t,
      d_status = status_value (row_status t), d_due_date = row_due_date t,
      d_priority = priority_value (row_priority t), d_created_at = row_created_at t,
      d_updated_at = row_updated_at t\<rparr>"

definition error_response :: "string \<Rightarrow> response" where
  "error_response m =
     \<lparr>r_status = Some ''error'', r_message = Some m, r_task = None, r_tasks = None\<rparr>"

definition success_message :: "string \<Rightarrow> response" where
  "success_message m =
     \<lparr>r_status = Some ''success'', r_message = Some m, r_task = None, r_tasks = None\<rparr>"

definition success_task :: "string \<Rightarrow> Task \<Rightarrow> response" where
  "success_task m t =
     \<lparr>r_status = Some ''success'', r_message = Some m, r_task = Some (task_to_dict t),
      r_tasks = None\<rparr>"

definition success_tasks :: "Task list \<Rightarrow> response" where
  "success_tasks ts =
     \<lparr>r_status = Some ''success'', r_message = None, r_task = None,
      r_tasks = Some (map task_to_dict ts)\<rparr>"

text \<open>
  \<open>datetime.strptime(s, "%Y-%m-%d")\<close> and \<open>str.upper\<close> are the standard library's; the
  tools take them as the parameters \<open>strptime\<close>, whose \<open>None\<close> is the \<open>ValueError\<close>,
  and \<open>upper\<close>.
\<close>

type_synonym strptime_fn = "string \<Rightarrow> datetime option"

type_synonym upper_fn = "string \<Rightarrow> string"

text \<open>An optional date argument: absent or empty gives no date; otherwise it is parsed,
  and the outer \<open>None\<close> is the parse error.\<close>

fun parse_date_arg :: "strptime_fn \<Rightarrow> string option \<Rightarrow> datetime option option" where
  "parse_date_arg strptime None = Some None"
| "parse_date_arg strptime (Some s) =
     (if s = [] then Some None
      else (case strptime s of None \<Rightarrow> None | Some dt \<Rightarrow> Some (Some dt)))"

definition create_task ::
  "strptime_fn \<Rightarrow> upper_fn \<Rightarrow> database \<Rightarrow> string \<Rightarrow> string option \<Rightarrow> string option \<Rightarrow> string option
   \<Rightarrow> response \<times> database" where
  "create_task strptime upper d title description due_date priority =
     (let db = get_db_session_for_tool d in
      case parse_date_arg strptime due_date of
        None \<Rightarrow> (error_response ''Invalid due_date format. Use YYYY-MM-DD.'', db_close db)
      | Some parsed_due_date \<Rightarrow>
          (case (if truthy_str priority then TaskPriority_by_name (upper (the priority))
                 else Some MEDIUM) of
             None \<Rightarrow>
               (error_response (''Invalid priority: '' @ the priority @ ''. Must be one of ''
                                @ list_TaskPriority @ ''.''), db_close db)
           | Some parsed_priority \<Rightarrow>
               (let new_task = \<lparr>row_id = 0, row_title = title, row_description = description,
                                 row_status = TODO, row_due_date = parsed_due_date,
                                 row_priority = parsed_priority, row_created_at = 0,
                                 row_updated_at = 0\<rparr>;
                    db1 = db_add db new_task
                in case db_commit db1 of
                     Inl e \<Rightarrow>
                       (error_response (''Failed to create task: '' @ str_exn e),
                        db_close (db_rollback db1))
                   | Inr db2 \<Rightarrow>
                       (case db_refresh db2 (next_id d) of
                          Inl e \<Rightarrow>
                            (error_response (''Failed to create task: '' @ str_exn e),
                             db_close (db_rollback db2))
                        | Inr t \<Rightarrow>
                            (success_task (''Task '' @ quoted (row_title t)
                                           @ '' created successfully with ID ''
                                           @ str_int (row_id t) @ ''.'') t,
                             db_close db2)))))"

text \<open>
  The selection shared by \<open>update_task\<close> and \<open>delete_task\<close>: by id when \<open>task_id\<close> is
  truthy, else by title pattern when \<open>title_match\<close> is truthy, else nothing.
\<close>

definition select_task :: "session \<Rightarrow> int option \<Rightarrow> string option \<Rightarrow> exn + Task option" where
  "select_task db task_id title_match =
     (if truthy_int task_id then query_first db (\<lambda>t. row_id t = the task_id)
      else if truthy_str title_match
      then query_first db (\<lambda>t. ilike (row_title t) (''%'' @ the title_match @ ''%''))
      else Inr None)"

text \<open>\<open>f"{task_id or title_match}"\<close>.\<close>

definition selector :: "int option \<Rightarrow> string option \<Rightarrow> string" where
  "selector task_id title_match =
     (if truthy_int task_id then str_int (the task_id)
      else (case title_match of None \<Rightarrow> ''None'' | Some s \<Rightarrow> s))"

text \<open>The field assignments of \<open>update_task\<close>, each on the loaded object and so on the
  session; a bad enumeration name or date ends the call with its error result.\<close>

definition assign :: "Task \<times> session \<Rightarrow> Task \<Rightarrow> Task \<times> session" where
  "assign ts t = (t, db_set (snd ts) t)"

fun set_title :: "Task \<times> session \<Rightarrow> string option \<Rightarrow> Task \<times> session" where
  "set_title ts None = ts"
| "set_title ts (Some v) = (if v = [] then ts else assign ts ((fst ts)\<lparr>row_title := v\<rparr>))"

fun set_description :: "Task \<times> session \<Rightarrow> string option \<Rightarrow> Task \<times> session" where
  "set_description ts None = ts"
| "set_description ts (Some v) =
     (if v = [] then ts else assign ts ((fst ts)\<lparr>row_description := Some v\<rparr>))"

fun set_status :: "upper_fn \<Rightarrow> Task \<times> session \<Rightarrow> string option \<Rightarrow> response + Task \<times> session" where
  "set_status upper ts None = Inr ts"
| "set_status upper ts (Some v) =
     (if v = [] then Inr ts
      else (case TaskStatus_by_name (upper v) of
              None \<Rightarrow> Inl (error_response (''Invalid status: '' @ v @ ''. Must be one of ''
                                           @ list_TaskStatus @ ''.''))
            | Some st \<Rightarrow> Inr (assign ts ((fst ts)\<lparr>row_status := st\<rparr>))))"

fun set_due_date ::
  "strptime_fn \<Rightarrow> Task \<times> session \<Rightarrow> string option \<Rightarrow> response + Task \<times> session" where
  "set_due_date strptime ts None = Inr ts"
| "set_due_date strptime ts (Some v) =
     (if v = [] then Inr ts
      else (case strptime v of
              None \<Rightarrow> Inl (error_response ''Invalid new_due_date format. Use YYYY-MM-DD.'')
            | Some dt \<Rightarrow> Inr (assign ts ((fst ts)\<lparr>row_due_date := Some dt\<rparr>))))"

fun set_priority :: "upper_fn \<Rightarrow> Task \<times> session \<Rightarrow> string option \<Rightarrow> response + Task \<times> session" where
  "set_priority upper ts None = Inr ts"
| "set_priority upper ts (Some v) =
     (if v = [] then Inr ts
      else (case TaskPriority_by_name (upper v) of
              None \<Rightarrow> Inl (error_response (''Invalid new_priority: '' @ v @ ''. Must be one of ''
                                           @ list_TaskPriority @ ''.''))
            | Some pr \<Rightarrow> Inr (assign ts ((fst ts)\<lparr>row_priority := pr\<rparr>))))"

definition update_task ::
  "strptime_fn \<Rightarrow> upper_fn \<Rightarrow> database \<Rightarrow> int option \<Rightarrow> string option \<Rightarrow> string option \<Rightarrow> string option
   \<Rightarrow> string option \<Rightarrow> string option \<Rightarrow> string option \<Rightarrow> response \<times> database" where
  "update_task strptime upper d task_id title_match new_title new_description new_status
     new_due_date new_priority =
     (let db = get_db_session_for_tool d in
      case select_task db task_id title_match of
        Inl e \<Rightarrow>
          (error_response (''Failed to update task: '' @ str_exn e), db_close (db_rollback db))
      | Inr None \<Rightarrow>
          (error_response (''Task not found with ID '' @ selector task_id title_match @ ''.''),
           db_close db)
      | Inr (Some task) \<Rightarrow>
          (let ts2 = set_description (set_title (task, db) new_title) new_description in
           case set_status upper ts2 new_status of
             Inl r \<Rightarrow> (r, db_close (snd ts2))
           | Inr ts3 \<Rightarrow>
               (case set_due_date strptime ts3 new_due_date of
                  Inl r \<Rightarrow> (r, db_close (snd ts3))
                | Inr ts4 \<Rightarrow>
                    (case set_priority upper ts4 new_priority of
                       Inl r \<Rightarrow> (r, db_close (snd ts4))
                     | Inr ts5 \<Rightarrow>
                         (case db_commit (snd ts5) of
                            Inl e \<Rightarrow>
                              (error_response (''Failed to update task: '' @ str_exn e),
                               db_close (db_rollback (snd ts5)))
                          | Inr db6 \<Rightarrow>
                              (case db_refresh db6 (row_id (fst ts5)) of
                                 Inl e \<Rightarrow>
                                   (error_response (''Failed to update task: '' @ str_exn e),
                                    db_close (db_rollback db6))
                               | Inr t \<Rightarrow>
                                   (success_task (''Task '' @ quoted (row_title t)
                                                  @ '' updated successfully.'') t,
                                    db_close db6)))))))"

definition delete_task ::
  "database \<Rightarrow> int option \<Rightarrow> string option \<Rightarrow> response \<times> database" where
  "delete_task d task_id title_match =
     (let db = get_db_session_for_tool d in
      case select_task db task_id title_match of
        Inl e \<Rightarrow>
          (error_response (''Failed to delete task: '' @ str_exn e), db_close (db_rollback db))
      | Inr None \<Rightarrow>
          (error_response (''Task not found with ID '' @ selector task_id title_match @ ''.''),
           db_close db)
      | Inr (Some task) \<Rightarrow>
          (let db1 = db_delete db task in
           case db_commit db1 of
             Inl e \<Rightarrow>
               (error_response (''Failed to delete task: '' @ str_exn e),
                db_close (db_rollback db1))
           | Inr db2 \<Rightarrow>
               (success_message (''Task '' @ quoted (row_title task) @ '' (ID: ''
                                 @ str_int (row_id task) @ '') deleted successfully.''),
                db_close db2)))"

definition list_tasks :: "database \<Rightarrow> response \<times> database" where
  "list_tasks d =
     (let db = get_db_session_for_tool d in
      case query_all_desc db (\<lambda>t. True) of
        Inl e \<Rightarrow> (error_response (''Failed to list tasks: '' @ str_exn e), db_close db)
      | Inr tasks \<Rightarrow> (success_tasks tasks, db_close db))"

text \<open>The filters of \<open>filter_tasks\<close>: each present argument narrows the query or ends the
  call with its error result.\<close>

fun filter_status :: "upper_fn \<Rightarrow> string option \<Rightarrow> response + (Task \<Rightarrow> bool)" where
  "filter_status upper None = Inr (\<lambda>t. True)"
| "filter_status upper (Some v) =
     (if v = [] then Inr (\<lambda>t. True)
      else (case TaskStatus_by_name (upper v) of
              None \<Rightarrow> Inl (error_response (''Invalid status for filter: '' @ v
                                           @ ''. Must be one of '' @ list_TaskStatus @ ''.''))
            | Some st \<Rightarrow> Inr (\<lambda>t. row_status t = st)))"

fun filter_priority :: "upper_fn \<Rightarrow> string option \<Rightarrow> response + (Task \<Rightarrow> bool)" where
  "filter_priority upper None = Inr (\<lambda>t. True)"
| "filter_priority upper (Some v) =
     (if v = [] then Inr (\<lambda>t. True)
      else (case TaskPriority_by_name (upper v) of
              None \<Rightarrow> Inl (error_response (''Invalid priority for filter: '' @ v
                                           @ ''. Must be one of '' @ list_TaskPriority @ ''.''))
            | Some pr \<Rightarrow> Inr (\<lambda>t. row_priority t = pr)))"

fun filter_due ::
  "strptime_fn \<Rightarrow> string \<Rightarrow> (datetime \<Rightarrow> datetime \<Rightarrow> bool) \<Rightarrow> string option
   \<Rightarrow> response + (Task \<Rightarrow> bool)" where
  "filter_due strptime what cmp None = Inr (\<lambda>t. True)"
| "filter_due strptime what cmp (Some v) =
     (if v = [] then Inr (\<lambda>t. True)
      else (case strptime v of
              None \<Rightarrow> Inl (error_response (''Invalid '' @ what @ '' format. Use YYYY-MM-DD.''))
            | Some dt \<Rightarrow>
                Inr (\<lambda>t. case row_due_date t of None \<Rightarrow> False | Some due \<Rightarrow> cmp due dt)))"

definition filter_tasks ::
  "strptime_fn \<Rightarrow> upper_fn \<Rightarrow> database \<Rightarrow> string option \<Rightarrow> string option \<Rightarrow> string option \<Rightarrow> string option
   \<Rightarrow> response \<times> database" where
  "filter_tasks strptime upper d status priority due_date_before due_date_after =
     (let db = get_db_session_for_tool d in
      case filter_status upper status of
        Inl r \<Rightarrow> (r, db_close db)
      | Inr p1 \<Rightarrow>
          (case filter_priority upper priority of
             Inl r \<Rightarrow> (r, db_close db)
           | Inr p2 \<Rightarrow>
               (case filter_due strptime ''due_date_before'' (\<le>) due_date_before of
                  Inl r \<Rightarrow> (r, db_close db)
                | Inr p3 \<Rightarrow>
                    (case filter_due strptime ''due_date_after'' (\<ge>) due_date_after of
                       Inl r \<Rightarrow> (r, db_close db)
                     | Inr p4 \<Rightarrow>
                         (case query_all_desc db (\<lambda>t. p1 t \<and> p2 t \<and> p3 t \<and> p4 t) of
                            Inl e \<Rightarrow>
                              (error_response (''Failed to filter tasks: '' @ str_exn e),
                               db_close db)
                          | Inr tasks \<Rightarrow> (success_tasks tasks, db_close db))))))"

section \<open>agent.py: the tool executor\<close>

text \<open>What a call through \<open>execute_tool\<close> can return: one of the tools' dictionaries,
  or some other Python object (described by its type's name).\<close>

datatype tool_result = Dict_result response | Object_result string

text \<open>
  Binding \<open>tool_func(**tool_args)\<close>: a keyword that is no parameter, or a required
  parameter without a value, is a \<open>TypeError\<close>.
\<close>

definition bind_error :: "string \<Rightarrow> string list \<Rightarrow> string list \<Rightarrow> kwargs \<Rightarrow> exn option" where
  "bind_error fname params required args =
     (case find (\<lambda>k. k \<notin> set params) (map fst args) of
        Some k \<Rightarrow>
          Some (TypeError (fname @ ''() got an unexpected keyword argument '' @ quoted k))
      | None \<Rightarrow>
          (case find (\<lambda>k. map_of args k = None) required of
             Some k \<Rightarrow>
               Some (TypeError (fname @ ''() missing 1 required positional argument: ''
                                @ quoted k))
           | None \<Rightarrow> None))"

text \<open>
  The value bound to an \<open>Optional[str]\<close> or \<open>Optional[int]\<close> parameter (absent means the
  default \<open>None\<close>); the outer \<open>None\<close> marks a value of another type than the annotation's.
  Python does not check annotations: the tool runs with such a value, and what it then
  does is decided in the libraries below it (the value may be stored, or an operation on
  it may raise). The parameter \<open>untyped\<close> gives the result and the store of such a call.
\<close>

fun str_arg :: "kwargs \<Rightarrow> string \<Rightarrow> string option option" where
  "str_arg args k =
     (case map_of args k of
        None \<Rightarrow> Some None
      | Some PNone \<Rightarrow> Some None
      | Some (PStr s) \<Rightarrow> Some (Some s)
      | Some (PInt i) \<Rightarrow> None)"

fun int_arg :: "kwargs \<Rightarrow> string \<Rightarrow> int option option" where
  "int_arg args k =
     (case map_of args k of
        None \<Rightarrow> Some None
      | Some PNone \<Rightarrow> Some None
      | Some (PInt i) \<Rightarrow> Some (Some i)
      | Some (PStr s) \<Rightarrow> None)"

type_synonym untyped_fn =
  "string \<Rightarrow> kwargs \<Rightarrow> database \<Rightarrow> (exn + tool_result) \<times> database"

definition tool_return :: "response \<times> database \<Rightarrow> (exn + tool_result) \<times> database" where
  "tool_return rd = (Inr (Dict_result (fst rd)), snd rd)"

definition call_create_task ::
  "strptime_fn \<Rightarrow> upper_fn \<Rightarrow> untyped_fn \<Rightarrow> database \<Rightarrow> kwargs \<Rightarrow> (exn + tool_result) \<times> database" where
  "call_create_task strptime upper untyped d args =
     (case bind_error ''create_task'' [''title'', ''description'', ''due_date'', ''priority'']
             [''title''] args of
        Some e \<Rightarrow> (Inl e, d)
      | None \<Rightarrow>
          (case (map_of args ''title'', str_arg args ''description'', str_arg args ''due_date'',
                 str_arg args ''priority'') of
             (Some (PStr title), Some description, Some due_date, Some priority) \<Rightarrow>
               tool_return (create_task strptime upper d title description due_date priority)
           | _ \<Rightarrow> untyped ''create_task'' args d))"

definition call_update_task ::
  "strptime_fn \<Rightarrow> upper_fn \<Rightarrow> untyped_fn \<Rightarrow> database \<Rightarrow> kwargs \<Rightarrow> (exn + tool_result) \<times> database" where
  "call_update_task strptime upper untyped d args =
     (case bind_error ''update_task''
             [''task_id'', ''title_match'', ''new_title'', ''new_description'', ''new_status'',
              ''new_due_date'', ''new_priority''] [] args of
        Some e \<Rightarrow> (Inl e, d)
      | None \<Rightarrow>
          (case (int_arg args ''task_id'', str_arg args ''title_match'',
                 str_arg args ''new_title'', str_arg args ''new_description'',
                 str_arg args ''new_status'', str_arg args ''new_due_date'',
                 str_arg args ''new_priority'') of
             (Some task_id, Some title_match, Some new_title, Some new_description,
              Some new_status, Some new_due_date, Some new_priority) \<Rightarrow>
               tool_return (update_task strptime upper d task_id title_match new_title
                              new_description new_status new_due_date new_priority)
           | _ \<Rightarrow> untyped ''update_task'' args d))"

definition call_delete_task ::
  "untyped_fn \<Rightarrow> database \<Rightarrow> kwargs \<Rightarrow> (exn + tool_result) \<times> database" where
  "call_delete_task untyped d args =
     (case bind_error ''delete_task'' [''task_id'', ''title_match''] [] args of
        Some e \<Rightarrow> (Inl e, d)
      | None \<Rightarrow>
          (case (int_arg args ''task_id'', str_arg args ''title_match'') of
             (Some task_id, Some title_match) \<Rightarrow> tool_return (delete_task d task_id title_match)
           | _ \<Rightarrow> untyped ''delete_task'' args d))"

definition call_list_tasks :: "database \<Rightarrow> kwargs \<Rightarrow> (exn + tool_result) \<times> database" where
  "call_list_tasks d args =
     (case bind_error ''list_tasks'' [] [] args of
        Some e \<Rightarrow> (Inl e, d)
      | None \<Rightarrow> tool_return (list_tasks d))"

definition call_filter_tasks ::
  "strptime_fn \<Rightarrow> upper_fn \<Rightarrow> untyped_fn \<Rightarrow> database \<Rightarrow> kwargs \<Rightarrow> (exn + tool_result) \<times> database" where
  "call_filter_tasks strptime upper untyped d args =
     (case bind_error ''filter_tasks''
             [''status'', ''priority'', ''due_date_before'', ''due_date_after''] [] args of
        Some e \<Rightarrow> (Inl e, d)
      | None \<Rightarrow>
          (case (str_arg args ''status'', str_arg args ''priority'',
                 str_arg args ''due_date_before'', str_arg args ''due_date_after'') of
             (Some status, Some priority, Some due_date_before, Some due_date_after) \<Rightarrow>
               tool_return (filter_tasks strptime upper d status priority due_date_before
                              due_date_after)
           | _ \<Rightarrow> untyped ''filter_tasks'' args d))"

text \<open>\<open>get_db_session_for_tool()\<close> called through the executor: it takes no argument and
  returns a new session object.\<close>

definition call_get_db_session_for_tool ::
  "database \<Rightarrow> kwargs \<Rightarrow> (exn + tool_result) \<times> database" where
  "call_get_db_session_for_tool d args =
     (case bind_error ''get_db_session_for_tool'' [] [] args of
        Some e \<Rightarrow> (Inl e, d)
      | None \<Rightarrow> (Inr (Object_result ''Session''), d))"

text \<open>The tools the model is told about (\<open>tools_list\<close>).\<close>

definition tools_list :: "string list" where
  "tools_list = [''create_task'', ''update_task'', ''delete_task'', ''list_tasks'',
                 ''filter_tasks'']"

text \<open>
  The other names module \<open>tools\<close> binds: its helper, and what it imports. Beside them a
  module object has the attributes every module has, whose names are of the form
  \<open>__x__\<close>.
\<close>

definition imported_names :: "string list" where
  "imported_names = [''Session'', ''Task'', ''TaskStatus'', ''TaskPriority'', ''datetime'',
                     ''Optional'', ''List'', ''Dict'', ''Union'', ''or_'']"

definition module_names :: "string list" where
  "module_names = tools_list @ [''get_db_session_for_tool''] @ imported_names"

definition dunder :: "string \<Rightarrow> bool" where
  "dunder n = (prefix ''__'' n \<and> suffix ''__'' n)"

text \<open>
  \<open>getattr(tools, name)(**args)\<close> for a name that the module imports or that the
  Python runtime provides is behaviour of code outside the repository: the parameter
  \<open>foreign\<close> gives its result.
\<close>

type_synonym foreign_fn = "string \<Rightarrow> kwargs \<Rightarrow> exn + tool_result"

text \<open>The body of the \<open>try\<close> in \<open>execute_tool\<close>: \<open>getattr(tools, tool_name)\<close>, then the
  call.\<close>

definition getattr_call ::
  "strptime_fn \<Rightarrow> upper_fn \<Rightarrow> foreign_fn \<Rightarrow> untyped_fn \<Rightarrow> database \<Rightarrow> string \<Rightarrow> kwargs
   \<Rightarrow> (exn + tool_result) \<times> database" where
  "getattr_call strptime upper foreign untyped d tool_name tool_args =
     (if tool_name = ''create_task'' then call_create_task strptime upper untyped d tool_args
      else if tool_name = ''update_task'' then call_update_task strptime upper untyped d tool_args
      else if tool_name = ''delete_task'' then call_delete_task untyped d tool_args
      else if tool_name = ''list_tasks'' then call_list_tasks d tool_args
      else if tool_name = ''filter_tasks'' then call_filter_tasks strptime upper untyped d tool_args
      else if tool_name = ''get_db_session_for_tool''
      then call_get_db_session_for_tool d tool_args
      else if tool_name \<in> set imported_names \<or> dunder tool_name
      then (foreign tool_name tool_args, d)
      else (Inl (AttributeError (''module 'app.tools' has no attribute '' @ quoted tool_name)),
            d))"

definition execute_tool ::
  "strptime_fn \<Rightarrow> upper_fn \<Rightarrow> foreign_fn \<Rightarrow> untyped_fn \<Rightarrow> database \<Rightarrow> string \<Rightarrow> kwargs
   \<Rightarrow> (exn + tool_result) \<times> database" where
  "execute_tool strptime upper foreign untyped d tool_name tool_args =
     (case getattr_call strptime upper foreign untyped d tool_name tool_args of
        (Inr result, d') \<Rightarrow> (Inr result, d')
      | (Inl e, d') \<Rightarrow>
          (Inr (Dict_result (error_response (''Tool execution failed: '' @ str_exn e))), d'))"

section \<open>agent.py: conversation state and the two nodes\<close>

record ToolCall =
  tc_name :: string
  tc_args :: kwargs
  tc_id :: string

text \<open>A \<open>ToolMessage\<close>'s content is \<open>str(tool_response)\<close>; the model keeps the value whose
  rendering it is.\<close>

datatype message =
    HumanMessage string
  | AIMessage string "ToolCall list"
  | ToolMessage tool_result string

datatype outcome =
    Outcome_None
  | Outcome_str string
  | Outcome_list "(string \<times> tool_result) list"

record AgentState =
  input :: string
  chat_history :: "message list"
  agent_outcome :: outcome
  tool_calls :: "ToolCall list"
  tasks_updated :: bool

text \<open>The language model's answer, and the model itself: \<open>llm.invoke(messages)\<close> returns
  an answer or raises.\<close>

record ai_response =
  content :: string
  response_tool_calls :: "ToolCall list"

type_synonym llm_fn = "message list \<Rightarrow> exn + ai_response"

record env =
  strptime_of :: strptime_fn
  upper_of :: upper_fn
  foreign_of :: foreign_fn
  untyped_of :: untyped_fn
  llm_of :: llm_fn

text \<open>The guard of \<open>call_model\<close>: the input is appended unless the history already
  ends with a \<open>HumanMessage\<close> of that content.\<close>

fun ends_with_input :: "message list \<Rightarrow> string \<Rightarrow> bool" where
  "ends_with_input [] current_input = False"
| "ends_with_input (m # ms) current_input =
     (case last (m # ms) of
        HumanMessage c \<Rightarrow> c = current_input
      | AIMessage c tcs \<Rightarrow> False
      | ToolMessage r i \<Rightarrow> False)"

definition call_model :: "env \<Rightarrow> AgentState \<Rightarrow> exn + AgentState" where
  "call_model e state =
     (let current_input = input state;
          messages = (if ends_with_input (chat_history state) current_input
                      then chat_history state
                      else chat_history state @ [HumanMessage current_input])
      in case llm_of e messages of
           Inl err \<Rightarrow> Inl err
         | Inr response \<Rightarrow>
             (if response_tool_calls response \<noteq> []
              then Inr (state\<lparr>agent_outcome := Outcome_None,
                              tool_calls := map (\<lambda>tc. \<lparr>tc_name = tc_name tc, tc_args = tc_args tc,
                                                       tc_id = tc_id tc\<rparr>)
                                              (response_tool_calls response),
                              chat_history := messages @ [AIMessage (content response)
                                                            (response_tool_calls response)]\<rparr>)
              else Inr (state\<lparr>agent_outcome := Outcome_str (content response),
                              tool_calls := [],
                              chat_history := messages @ [AIMessage (content response) []]\<rparr>)))"

text \<open>The loop of \<open>call_tool\<close> over the pending calls, on its three variables and the
  database.\<close>

fun call_tool_loop ::
  "env \<Rightarrow> ToolCall list \<Rightarrow> (string \<times> tool_result) list \<times> bool \<times> message list \<times> database
   \<Rightarrow> (string \<times> tool_result) list \<times> bool \<times> message list \<times> database" where
  "call_tool_loop e [] acc = acc"
| "call_tool_loop e (tool_call # rest) (responses, updated, history, d) =
     (let tool_name = tc_name tool_call; tool_args = tc_args tool_call;
          tool_id = tc_id tool_call
      in case execute_tool (strptime_of e) (upper_of e) (foreign_of e) (untyped_of e) d tool_name tool_args of
           (Inr tool_response, d') \<Rightarrow>
             call_tool_loop e rest
               (responses @ [(tool_name, tool_response)],
                (if tool_name \<in> set [''create_task'', ''update_task'', ''delete_task'']
                 then True else updated),
                history @ [ToolMessage tool_response tool_id], d')
         | (Inl err, d') \<Rightarrow>
             (let error_result = Dict_result (error_response (''Tool execution failed: ''
                                                              @ str_exn err))
              in call_tool_loop e rest
                   (responses @ [(tool_name, error_result)], updated,
                    history @ [ToolMessage error_result tool_id], d')))"

definition call_tool :: "env \<Rightarrow> AgentState \<Rightarrow> database \<Rightarrow> AgentState \<times> database" where
  "call_tool e state d =
     (case call_tool_loop e (tool_calls state) ([], False, chat_history state, d) of
        (responses, updated, history, d') \<Rightarrow>
          (state\<lparr>agent_outcome := Outcome_list responses, tasks_updated := updated,
                 chat_history := history\<rparr>, d'))"

text \<open>\<open>should_continue\<close>: \<open>True\<close> is the edge to the tool node, \<open>False\<close> the end.\<close>

definition should_continue :: "AgentState \<Rightarrow> bool" where
  "should_continue state = (tool_calls state \<noteq> [])"

text \<open>
  The rounds of tool calls that a stretch of history records: the call lists of its
  \<open>AIMessage\<close>s that ask for tools, in order. And whether a call list names one of the
  three tools that \<open>call_tool\<close> counts as changing records.
\<close>

fun tool_rounds :: "message list \<Rightarrow> ToolCall list list" where
  "tool_rounds [] = []"
| "tool_rounds (AIMessage c tcs # ms) = (if tcs = [] then tool_rounds ms else tcs # tool_rounds ms)"
| "tool_rounds (HumanMessage c # ms) = tool_rounds ms"
| "tool_rounds (ToolMessage r i # ms) = tool_rounds ms"

definition names_mutation :: "ToolCall list \<Rightarrow> bool" where
  "names_mutation tcs =
     (\<exists>tc \<in> set tcs. tc_name tc \<in> {''create_task'', ''update_task'', ''delete_task''})"

section \<open>agent.py: the graph and the session\<close>

text \<open>
  The compiled graph: entry at the model node, from there to the tool node or to the
  end, from the tool node back to the model node. A node's returned keys replace those
  of the state. The graph library runs at most \<open>recursion_limit\<close> node steps and raises
  when a step is still due after them; the count \<open>n\<close> is the number of steps left.
\<close>

datatype node = Model_node | Tool_node

fun invoke :: "env \<Rightarrow> nat \<Rightarrow> node \<Rightarrow> AgentState \<Rightarrow> database \<Rightarrow> (exn + AgentState) \<times> database" where
  "invoke e 0 nd state d = (Inl (GraphRecursionError ''Recursion limit reached''), d)"
| "invoke e (Suc n) Model_node state d =
     (case call_model e state of
        Inl err \<Rightarrow> (Inl err, d)
      | Inr state' \<Rightarrow>
          (if should_continue state' then invoke e n Tool_node state' d
           else (Inr state', d)))"
| "invoke e (Suc n) Tool_node state d =
     (case call_tool e state d of (state', d') \<Rightarrow> invoke e n Model_node state' d')"

text \<open>
  The same graph one node step at a time: a step raises, ends the run with a result, or
  leaves the next node with its state and the store. \<open>after_steps\<close> is where a run is
  after \<open>k\<close> steps, when it is still going.
\<close>

datatype step_result = Raised exn | Ended AgentState | Next node AgentState database

definition step :: "env \<Rightarrow> node \<Rightarrow> AgentState \<Rightarrow> database \<Rightarrow> step_result" where
  "step e nd state d =
     (case nd of
        Model_node \<Rightarrow>
          (case call_model e state of
             Inl err \<Rightarrow> Raised err
           | Inr state' \<Rightarrow>
               (if should_continue state' then Next Tool_node state' d else Ended state'))
      | Tool_node \<Rightarrow>
          (case call_tool e state d of (state', d') \<Rightarrow> Next Model_node state' d'))"

fun after_steps ::
  "env \<Rightarrow> nat \<Rightarrow> node \<Rightarrow> AgentState \<Rightarrow> database \<Rightarrow> (node \<times> AgentState \<times> database) option" where
  "after_steps e 0 nd state d = Some (nd, state, d)"
| "after_steps e (Suc k) nd state d =
     (case step e nd state d of
        Next nd' state' d' \<Rightarrow> after_steps e k nd' state' d'
      | Raised err \<Rightarrow> None
      | Ended state' \<Rightarrow> None)"

record TaskAgent =
  self_chat_history :: "message list"

definition new_TaskAgent :: TaskAgent where
  "new_TaskAgent = \<lparr>self_chat_history = []\<rparr>"

definition process_input ::
  "env \<Rightarrow> nat \<Rightarrow> TaskAgent \<Rightarrow> database \<Rightarrow> string \<Rightarrow> (exn + AgentState) \<times> TaskAgent \<times> database" where
  "process_input e recursion_limit self d user_input =
     (let initial_state = \<lparr>input = user_input, chat_history = self_chat_history self,
                            agent_outcome = Outcome_None, tool_calls = [],
                            tasks_updated = False\<rparr>
      in case invoke e recursion_limit Model_node initial_state d of
           (Inl err, d') \<Rightarrow> (Inl err, self, d')
         | (Inr result, d') \<Rightarrow>
             (Inr result, self\<lparr>self_chat_history := chat_history result\<rparr>, d'))"

definition clear_history :: "TaskAgent \<Rightarrow> TaskAgent" where
  "clear_history self = self\<lparr>self_chat_history := []\<rparr>"

text \<open>
  \<open>get_final_response\<close>. On a result that is no dictionary, what
  \<open>item["response"].get("status")\<close> raises is decided by that object's class, outside
  the repository: the parameter \<open>get_raises\<close> gives the exception.
\<close>

type_synonym get_fn = "string \<Rightarrow> exn"

fun final_lines :: "get_fn \<Rightarrow> (string \<times> tool_result) list \<Rightarrow> exn + string list" where
  "final_lines get_raises [] = Inr []"
| "final_lines get_raises ((tool_name, Object_result ob) # items) = Inl (get_raises ob)"
| "final_lines get_raises ((tool_name, Dict_result r) # items) =
     (let line = (if r_status r = Some ''success''
                  then (case r_message r of None \<Rightarrow> ''Success'' | Some m \<Rightarrow> m)
                  else (case r_message r of None \<Rightarrow> ''Error'' | Some m \<Rightarrow> m))
      in case final_lines get_raises items of
           Inl err \<Rightarrow> Inl err
         | Inr ls \<Rightarrow> Inr (line # ls))"

definition get_final_response :: "get_fn \<Rightarrow> AgentState \<Rightarrow> exn + string" where
  "get_final_response get_raises result =
     (case agent_outcome result of
        Outcome_str s \<Rightarrow> Inr s
      | Outcome_list items \<Rightarrow>
          (case final_lines get_raises items of
             Inl err \<Rightarrow> Inl err
           | Inr ls \<Rightarrow> Inr (join_lines ls))
      | Outcome_None \<Rightarrow> Inr ''Task completed successfully.'')"

section \<open>main.py: the text the websocket endpoint sends\<close>

definition task_summary :: "task_dict \<Rightarrow> string" where
  "task_summary task_info =
     ''Task details: Title: '' @ d_title task_info @ '', Status: '' @ d_status task_info
     @ '', Priority: '' @ d_priority task_info
     @ (if d_id task_info \<noteq> 0 then '', ID: '' @ str_int (d_id task_info) else [])"

definition status_msg :: "response \<Rightarrow> string" where
  "status_msg response_data =
     (case r_status response_data of None \<Rightarrow> ''unknown'' | Some s \<Rightarrow> s)"

definition message_msg :: "response \<Rightarrow> string" where
  "message_msg response_data =
     (case r_message response_data of None \<Rightarrow> ''No specific message.'' | Some m \<Rightarrow> m)"

definition tool_feedback :: "string \<Rightarrow> response \<Rightarrow> string" where
  "tool_feedback tool_name response_data =
     ''Tool '' @ quoted tool_name @ '' executed: Status: '' @ status_msg response_data
     @ '', Message: '' @ message_msg response_data"

text \<open>The same holds for \<open>response_data.get("status", "unknown")\<close> here.\<close>

fun tool_messages :: "get_fn \<Rightarrow> (string \<times> tool_result) list \<Rightarrow> exn + string list" where
  "tool_messages get_raises [] = Inr []"
| "tool_messages get_raises ((tool_name, Object_result ob) # items) = Inl (get_raises ob)"
| "tool_messages get_raises ((tool_name, Dict_result response_data) # items) =
     (let lines = (case r_task response_data of
                     Some task_info \<Rightarrow>
                       (if status_msg response_data = ''success''
                        then [tool_feedback tool_name response_data, task_summary task_info]
                        else [tool_feedback tool_name response_data])
                   | None \<Rightarrow> [tool_feedback tool_name response_data])
      in case tool_messages get_raises items of
           Inl err \<Rightarrow> Inl err
         | Inr ls \<Rightarrow> Inr (lines @ ls))"

definition ai_response_content :: "get_fn \<Rightarrow> outcome \<Rightarrow> exn + string" where
  "ai_response_content get_raises outcome =
     (case outcome of
        Outcome_str s \<Rightarrow> Inr s
      | Outcome_list items \<Rightarrow>
          (case tool_messages get_raises items of
             Inl err \<Rightarrow> Inl err
           | Inr ls \<Rightarrow> Inr (join_lines ls))
      | Outcome_None \<Rightarrow> Inr ''The agent had an unexpected outcome.'')"

section \<open>Example inputs\<close>

text \<open>A store with no task and one with a single task, a date parser that knows one
  date, foreign attributes, ill-typed calls and \<open>.get\<close> on other objects that all
  raise, and language models: one that answers in text, one that first asks for a
  \<open>create_task\<close> with a misspelt priority, and one that does so and then is
  unreachable.\<close>

definition db_empty :: database where
  "db_empty = \<lparr>rows = [], next_id = 1, clock = 100, store_fault = None\<rparr>"

definition task_milk :: Task where
  "task_milk = \<lparr>row_id = 1, row_title = ''Buy Milk'', row_description = None,
                 row_status = TODO, row_due_date = None, row_priority = MEDIUM,
                 row_created_at = 50, row_updated_at = 50\<rparr>"

definition db_milk :: database where
  "db_milk = \<lparr>rows = [task_milk], next_id = 2, clock = 100, store_fault = None\<rparr>"

definition strptime_example :: strptime_fn where
  "strptime_example s = (if s = ''2025-08-02'' then Some 20250802 else None)"

definition foreign_none :: foreign_fn where
  "foreign_none n args = Inl (TypeError ''object is not callable'')"

definition untyped_none :: untyped_fn where
  "untyped_none n args d = (Inl (TypeError ''unsupported operand type''), d)"

definition get_none :: "string \<Rightarrow> exn" where
  "get_none ob = AttributeError (quoted ob @ '' object has no attribute '' @ quoted ''get'')"

definition llm_text :: llm_fn where
  "llm_text ms = Inr \<lparr>content = ''ok'', response_tool_calls = []\<rparr>"

definition call_bad_create :: ToolCall where
  "call_bad_create =
     \<lparr>tc_name = ''create_task'',
      tc_args = [(''title'', PStr ''buy milk''), (''priority'', PStr ''urgentt'')],
      tc_id = ''call_1''\<rparr>"

definition llm_bad_create :: llm_fn where
  "llm_bad_create ms =
     (if length ms = 1 then Inr \<lparr>content = [], response_tool_calls = [call_bad_create]\<rparr>
      else Inr \<lparr>content = ''Sorry'', response_tool_calls = []\<rparr>)"

definition env_with :: "llm_fn \<Rightarrow> env" where
  "env_with llm = \<lparr>strptime_of = strptime_example, upper_of = upper_ascii,
                    foreign_of = foreign_none, untyped_of = untyped_none, llm_of = llm\<rparr>"

definition state_with :: "outcome \<Rightarrow> AgentState" where
  "state_with oc = \<lparr>input = ''add milk'', chat_history = [], agent_outcome = oc,
                     tool_calls = [], tasks_updated = False\<rparr>"

definition llm_fault_after_tool :: llm_fn where
  "llm_fault_after_tool ms =
     (if length ms = 1 then Inr \<lparr>content = [], response_tool_calls = [call_bad_create]\<rparr>
      else Inl (ModelInvocationError ''model unreachable''))"

definition call_list :: ToolCall where
  "call_list = \<lparr>tc_name = ''list_tasks'', tc_args = [], tc_id = ''call_0''\<rparr>"

text \<open>A state at the tool node, after the model has asked for two calls.\<close>

definition state_two_calls :: AgentState where
  "state_two_calls =
     \<lparr>input = ''add milk'',
      chat_history = [HumanMessage ''add milk'', AIMessage [] [call_list, call_bad_create]],
      agent_outcome = Outcome_None, tool_calls = [call_list, call_bad_create],
      tasks_updated = False\<rparr>"

text \<open>A model that first asks for a valid \<open>create_task\<close> and then answers in text, with
  the task, the store and the history that this turn leaves on the empty store; and the
  state after the tool round of the turn with the misspelt priority.\<close>

definition call_create :: ToolCall where
  "call_create =
     \<lparr>tc_name = ''create_task'', tc_args = [(''title'', PStr ''buy milk'')], tc_id = ''call_1''\<rparr>"

definition llm_create :: llm_fn where
  "llm_create ms =
     (if length ms = 1 then Inr \<lparr>content = [], response_tool_calls = [call_create]\<rparr>
      else Inr \<lparr>content = ''Added'', response_tool_calls = []\<rparr>)"

definition task_created :: Task where
  "task_created =
     \<lparr>row_id = 1, row_title = ''buy milk'', row_description = None, row_status = TODO,
      row_due_date = None, row_priority = MEDIUM, row_created_at = 100, row_updated_at = 100\<rparr>"

definition db_created :: database where
  "db_created = \<lparr>rows = [task_created], next_id = 2, clock = 100, store_fault = None\<rparr>"

definition history_created :: "message list" where
  "history_created =
     [HumanMessage ''add milk'',
      AIMessage [] [call_create],
      ToolMessage (Dict_result (success_task
          (''Task '' @ quoted ''buy milk'' @ '' created successfully with ID 1.'')
          task_created)) ''call_1'',
      HumanMessage ''add milk'',
      AIMessage ''Added'' []]"

definition state_after_bad_create :: AgentState where
  "state_after_bad_create =
     \<lparr>input = ''add milk'',
      chat_history =
        [HumanMessage ''add milk'',
         AIMessage [] [call_bad_create],
         ToolMessage (Dict_result (error_response
            (''Invalid priority: urgentt. Must be one of '' @ list_TaskPriority @ ''.'')))
           ''call_1''],
      agent_outcome = Outcome_list [(''create_task'', Dict_result (error_response
            (''Invalid priority: urgentt. Must be one of '' @ list_TaskPriority @ ''.'')))],
      tool_calls = [call_bad_create], tasks_updated = True\<rparr>"

definition outcome_two :: "(string \<times> response) list" where
  "outcome_two =
     [(''create_task'', fst (create_task strptime_example upper_ascii db_empty ''buy milk'' None None None)),
      (''update_task'', error_response ''Task not found with ID 999.'')]"

section \<open>Shared facts\<close>

text \<open>Closing a session, also after a rollback, leaves the database as committed.\<close>

lemma db_close_session: "db_close (get_db_session_for_tool d) = d"
  by (simp add: db_close_def get_db_session_for_tool_def)

lemma db_close_rollback: "db_close (db_rollback s) = db_close s"
  by (simp add: db_close_def db_rollback_def)

lemma execute_tool_returns:
  "\<exists>r d'. execute_tool strptime upper foreign untyped d tool_name tool_args = (Inr r, d')"
  by (cases "getattr_call strptime upper foreign untyped d tool_name tool_args")
     (auto simp: execute_tool_def split: sum.splits)

lemma getattr_call_unknown:
  assumes "tool_name \<notin> set module_names" "\<not> dunder tool_name"
  shows "getattr_call strptime upper foreign untyped d tool_name tool_args =
    (Inl (AttributeError (''module 'app.tools' has no attribute '' @ quoted tool_name)), d)"
proof -
  from assms(1) have "tool_name \<noteq> ''create_task''" "tool_name \<noteq> ''update_task''"
    "tool_name \<noteq> ''delete_task''" "tool_name \<noteq> ''list_tasks''" "tool_name \<noteq> ''filter_tasks''"
    "tool_name \<noteq> ''get_db_session_for_tool''" "tool_name \<notin> set imported_names"
    by (auto simp: module_names_def tools_list_def)
  with assms(2) show ?thesis by (simp add: getattr_call_def)
qed

text \<open>One step of the loop of \<open>call_tool\<close>: the executor has caught every exception, so
  the step is the one of the \<open>try\<close> branch.\<close>

lemma call_tool_loop_step:
  "\<exists>r d1. call_tool_loop e (tc # tcs) (responses, updated, history, d) =
     call_tool_loop e tcs
       (responses @ [(tc_name tc, r)],
        (if tc_name tc \<in> set [''create_task'', ''update_task'', ''delete_task'']
         then True else updated),
        history @ [ToolMessage r (tc_id tc)], d1)"
proof -
  obtain r d1 where
    "execute_tool (strptime_of e) (upper_of e) (foreign_of e) (untyped_of e) d (tc_name tc) (tc_args tc) = (Inr r, d1)"
    using execute_tool_returns by blast
  then have "call_tool_loop e (tc # tcs) (responses, updated, history, d) =
     call_tool_loop e tcs
       (responses @ [(tc_name tc, r)],
        (if tc_name tc \<in> set [''create_task'', ''update_task'', ''delete_task'']
         then True else updated),
        history @ [ToolMessage r (tc_id tc)], d1)"
    by (simp add: Let_def)
  then show ?thesis by blast
qed

lemma call_tool_loop_appends:
  "call_tool_loop e tcs (responses, updated, history, d) = (responses', updated', history', d')
   \<Longrightarrow> \<exists>rs. length rs = length tcs \<and> responses' = responses @ rs
        \<and> map fst rs = map tc_name tcs
        \<and> history' = history @ map (\<lambda>(tc, r). ToolMessage (snd r) (tc_id tc)) (zip tcs rs)"
proof (induction tcs arbitrary: responses updated history d)
  case Nil
  then show ?case by simp
next
  case (Cons tc tcs)
  let ?u = "if tc_name tc \<in> set [''create_task'', ''update_task'', ''delete_task'']
            then True else updated"
  obtain r d1 where
    "call_tool_loop e tcs (responses @ [(tc_name tc, r)], ?u,
        history @ [ToolMessage r (tc_id tc)], d1) = (responses', updated', history', d')"
    using call_tool_loop_step [of e tc tcs responses updated history d] Cons.prems by auto
  from Cons.IH [OF this] obtain rs where rs: "length rs = length tcs"
      "responses' = (responses @ [(tc_name tc, r)]) @ rs" "map fst rs = map tc_name tcs"
      "history' = (history @ [ToolMessage r (tc_id tc)])
                  @ map (\<lambda>(tc, r). ToolMessage (snd r) (tc_id tc)) (zip tcs rs)"
    by blast
  show ?case
    by (rule exI [of _ "(tc_name tc, r) # rs"]) (simp add: rs)
qed

lemma call_tool_loop_flag:
  "call_tool_loop e tcs (responses, updated, history, d) = (responses', updated', history', d')
   \<Longrightarrow> updated' \<longleftrightarrow>
         updated \<or> (\<exists>tc \<in> set tcs. tc_name tc \<in> {''create_task'', ''update_task'', ''delete_task''})"
proof (induction tcs arbitrary: responses updated history d)
  case Nil
  then show ?case by simp
next
  case (Cons tc tcs)
  let ?u = "if tc_name tc \<in> set [''create_task'', ''update_task'', ''delete_task'']
            then True else updated"
  obtain r d1 where
    "call_tool_loop e tcs (responses @ [(tc_name tc, r)], ?u,
        history @ [ToolMessage r (tc_id tc)], d1) = (responses', updated', history', d')"
    using call_tool_loop_step [of e tc tcs responses updated history d] Cons.prems by auto
  from Cons.IH [OF this] show ?case by auto
qed

lemma ends_with_input_iff:
  "ends_with_input h i \<longleftrightarrow> h \<noteq> [] \<and> last h = HumanMessage i"
  by (cases h) (auto split: message.splits)

text \<open>The graph ends only from the model node's direct answer, so the outcome of a
  finished run is always a text.\<close>

lemma invoke_outcome_str:
  "invoke e n nd state d = (Inr result, d') \<Longrightarrow> \<exists>s. agent_outcome result = Outcome_str s"
proof (induction e n nd state d rule: invoke.induct)
  case (1 e nd state d)
  then show ?case by simp
next
  case (2 e n state d)
  then show ?case
    by (auto simp: call_model_def Let_def should_continue_def split: sum.splits if_splits)
next
  case (3 e n state d)
  then show ?case by (auto split: prod.splits)
qed

text \<open>What the two nodes do to the history and the flag, and the flag at the end of a
  run of the graph.\<close>

lemma tool_rounds_append: "tool_rounds (xs @ ys) = tool_rounds xs @ tool_rounds ys"
  by (induction xs rule: tool_rounds.induct) simp_all

lemma call_model_result:
  assumes "call_model e state = Inr state'"
  shows "\<exists>response.
     llm_of e (if chat_history state \<noteq> [] \<and> last (chat_history state) = HumanMessage (input state)
               then chat_history state
               else chat_history state @ [HumanMessage (input state)]) = Inr response
     \<and> chat_history state' =
         (if chat_history state \<noteq> [] \<and> last (chat_history state) = HumanMessage (input state)
          then chat_history state
          else chat_history state @ [HumanMessage (input state)])
         @ [AIMessage (content response) (response_tool_calls response)]
     \<and> tool_calls state' = response_tool_calls response
     \<and> tasks_updated state' = tasks_updated state
     \<and> input state' = input state"
  using assms
  by (auto simp: call_model_def Let_def ends_with_input_iff map_idI split: sum.splits if_splits)

lemma call_tool_loop_history:
  "call_tool_loop e tcs (responses, updated, history, d) = (responses', updated', history', d')
   \<Longrightarrow> \<exists>ms. history' = history @ ms \<and> tool_rounds ms = []"
proof (induction tcs arbitrary: responses updated history d)
  case Nil
  then show ?case by simp
next
  case (Cons tc tcs)
  let ?u = "if tc_name tc \<in> set [''create_task'', ''update_task'', ''delete_task'']
            then True else updated"
  obtain r d1 where
    "call_tool_loop e tcs (responses @ [(tc_name tc, r)], ?u,
        history @ [ToolMessage r (tc_id tc)], d1) = (responses', updated', history', d')"
    using call_tool_loop_step [of e tc tcs responses updated history d] Cons.prems by auto
  from Cons.IH [OF this] obtain ms where
    "history' = (history @ [ToolMessage r (tc_id tc)]) @ ms" "tool_rounds ms = []"
    by blast
  then show ?case
    by (intro exI [of _ "ToolMessage r (tc_id tc) # ms"]) simp
qed

lemma call_tool_result:
  "\<exists>ms. chat_history (fst (call_tool e state d)) = chat_history state @ ms
     \<and> tool_rounds ms = []
     \<and> tasks_updated (fst (call_tool e state d)) = names_mutation (tool_calls state)"
proof -
  obtain responses' updated' history' d' where
    l: "call_tool_loop e (tool_calls state) ([], False, chat_history state, d)
        = (responses', updated', history', d')"
    by (metis prod_cases4)
  from call_tool_loop_history [OF l] obtain ms where
    "history' = chat_history state @ ms" "tool_rounds ms = []"
    by blast
  moreover from call_tool_loop_flag [OF l]
  have "updated' = names_mutation (tool_calls state)"
    by (simp add: names_mutation_def)
  ultimately show ?thesis using l by (intro exI [of _ ms]) (simp add: call_tool_def)
qed

lemma invoke_step:
  "invoke e (Suc n) nd state d =
     (case step e nd state d of
        Raised err \<Rightarrow> (Inl err, d)
      | Ended state' \<Rightarrow> (Inr state', d)
      | Next nd' state' d' \<Rightarrow> invoke e n nd' state' d')"
  by (cases nd) (auto simp: step_def split: sum.splits prod.splits)

lemma invoke_after_steps:
  "after_steps e k nd state d = Some (nd', state', d')
   \<Longrightarrow> invoke e (k + m) nd state d = invoke e m nd' state' d'"
proof (induction k arbitrary: nd state d)
  case 0
  then show ?case by simp
next
  case (Suc k)
  then obtain nd1 st1 d1 where s: "step e nd state d = Next nd1 st1 d1"
    and a: "after_steps e k nd1 st1 d1 = Some (nd', state', d')"
    by (auto split: step_result.splits)
  have "invoke e (Suc k + m) nd state d = invoke e (k + m) nd1 st1 d1"
    using invoke_step [of e "k + m" nd state d] s by simp
  with Suc.IH [OF a] show ?case by simp
qed

lemma invoke_flag:
  "invoke e n nd state d = (Inr result, d')
   \<Longrightarrow> \<exists>ms. chat_history result = chat_history state @ ms
          \<and> tasks_updated result =
              (if tool_rounds ms = []
               then (case nd of Model_node \<Rightarrow> tasks_updated state
                              | Tool_node \<Rightarrow> names_mutation (tool_calls state))
               else names_mutation (last (tool_rounds ms)))"
proof (induction e n nd state d rule: invoke.induct)
  case (1 e nd state d)
  then show ?case by simp
next
  case (2 e n state d)
  let ?entry = "if chat_history state \<noteq> [] \<and> last (chat_history state) = HumanMessage (input state)
               then chat_history state
               else chat_history state @ [HumanMessage (input state)]"
  from "2.prems" obtain st1 where c: "call_model e state = Inr st1"
    by (auto split: sum.splits)
  from call_model_result [OF c] obtain response where
    r: "llm_of e ?entry = Inr response
        \<and> chat_history st1 = ?entry @ [AIMessage (content response) (response_tool_calls response)]
        \<and> tool_calls st1 = response_tool_calls response
        \<and> tasks_updated st1 = tasks_updated state
        \<and> input st1 = input state" ..
  from r have
    h: "chat_history st1 = ?entry @ [AIMessage (content response) (response_tool_calls response)]"
    by (rule conjunct1 [OF conjunct2])
  from r have t: "tool_calls st1 = response_tool_calls response"
    and u: "tasks_updated st1 = tasks_updated state"
    by blast+
  obtain pre where p: "?entry = chat_history state @ pre" "tool_rounds pre = []"
    by (cases "chat_history state \<noteq> [] \<and> last (chat_history state) = HumanMessage (input state)")
      auto
  show ?case
  proof (cases "should_continue st1")
    case False
    with "2.prems" c have "result = st1" by simp
    moreover from False t have "response_tool_calls response = []"
      by (simp add: should_continue_def)
    ultimately show ?thesis
      using h u p
      by (intro exI [of _ "pre @ [AIMessage (content response) []]"])
        (simp add: tool_rounds_append)
  next
    case True
    with "2.prems" c have i: "invoke e n Tool_node st1 d = (Inr result, d')" by simp
    from "2.IH" [OF c True i] have
      "\<exists>ms. chat_history result = chat_history st1 @ ms
         \<and> tasks_updated result =
             (if tool_rounds ms = [] then names_mutation (tool_calls st1)
              else names_mutation (last (tool_rounds ms)))"
      by (simp only: node.case)
    then obtain ms where
      m: "chat_history result = chat_history st1 @ ms
         \<and> tasks_updated result =
             (if tool_rounds ms = [] then names_mutation (tool_calls st1)
              else names_mutation (last (tool_rounds ms)))" ..
    from True t have ne: "response_tool_calls response \<noteq> []"
      by (simp add: should_continue_def)
    show ?thesis
      using h t p m ne
      by (intro exI [of _ "pre @ [AIMessage (content response) (response_tool_calls response)] @ ms"])
        (simp add: tool_rounds_append)
  qed
next
  case (3 e n state d)
  obtain st2 d2 where c: "call_tool e state d = (st2, d2)"
    by (cases "call_tool e state d")
  with "3.prems" have i: "invoke e n Model_node st2 d2 = (Inr result, d')" by simp
  from call_tool_result [of e state d] c obtain tms where
    h: "chat_history st2 = chat_history state @ tms" and tr: "tool_rounds tms = []"
    and u: "tasks_updated st2 = names_mutation (tool_calls state)"
    by auto
  from "3.IH" [OF c [symmetric] i] have
    "\<exists>ms. chat_history result = chat_history st2 @ ms
       \<and> tasks_updated result =
           (if tool_rounds ms = [] then tasks_updated st2
            else names_mutation (last (tool_rounds ms)))"
    by (simp only: node.case)
  then obtain ms where
    m: "chat_history result = chat_history st2 @ ms
       \<and> tasks_updated result =
           (if tool_rounds ms = [] then tasks_updated st2
            else names_mutation (last (tool_rounds ms)))" ..
  show ?case
    using h tr u m
    by (intro exI [of _ "tms @ ms"]) (simp add: tool_rounds_append)
qed

lemma invoke_flag_model:
  assumes "invoke e n Model_node st d = (Inr res, d')" and "\<not> tasks_updated st"
  shows "\<exists>ms. chat_history res = chat_history st @ ms
          \<and> tasks_updated res
              = (tool_rounds ms \<noteq> [] \<and> names_mutation (last (tool_rounds ms)))"
proof -
  from invoke_flag [OF assms(1)] have
    "\<exists>ms. chat_history res = chat_history st @ ms
       \<and> tasks_updated res =
           (if tool_rounds ms = [] then tasks_updated st
            else names_mutation (last (tool_rounds ms)))"
    by (simp only: node.case)
  then obtain ms where
    m: "chat_history res = chat_history st @ ms
       \<and> tasks_updated res =
           (if tool_rounds ms = [] then tasks_updated st
            else names_mutation (last (tool_rounds ms)))" ..
  show ?thesis
  proof (cases "tool_rounds ms = []")
    case True
    with m assms(2) show ?thesis by (intro exI [of _ ms]) simp
  next
    case False
    with m show ?thesis by (intro exI [of _ ms]) simp
  qed
qed

lemma invoke_extends:
  assumes "invoke e n nd st d = (Inr res, d')"
  shows "\<exists>ms. chat_history res = chat_history st @ ms"
proof -
  from invoke_flag [OF assms] obtain ms where
    "chat_history res = chat_history st @ ms
       \<and> tasks_updated res =
           (if tool_rounds ms = []
            then (case nd of Model_node \<Rightarrow> tasks_updated st
                           | Tool_node \<Rightarrow> names_mutation (tool_calls st))
            else names_mutation (last (tool_rounds ms)))" ..
  then have "chat_history res = chat_history st @ ms" ..
  then show ?thesis ..
qed

section \<open>The tool step: order of results and the records-mutated flag\<close>

text \<open>
  Claim C1. A Tool-state step over N pending tool calls appends exactly N
  \<open>ToolMessage\<close>s to the chat history, in the order of the calls, the i-th carrying the
  i-th call's result and the i-th call's id; the step's outcome lists the same results
  under the calls' names.
\<close>

theorem call_tool_appends_results_in_order:
  "\<exists>responses.
     agent_outcome (fst (call_tool e state d)) = Outcome_list responses
     \<and> length responses = length (tool_calls state)
     \<and> map fst responses = map tc_name (tool_calls state)
     \<and> chat_history (fst (call_tool e state d)) =
         chat_history state
         @ map (\<lambda>(tc, r). ToolMessage (snd r) (tc_id tc)) (zip (tool_calls state) responses)"
proof -
  obtain responses' updated' history' d' where
    l: "call_tool_loop e (tool_calls state) ([], False, chat_history state, d)
        = (responses', updated', history', d')"
    by (metis prod_cases4)
  from call_tool_loop_appends [OF l] obtain rs where
    "length rs = length (tool_calls state)" "responses' = rs"
    "map fst rs = map tc_name (tool_calls state)"
    "history' = chat_history state
       @ map (\<lambda>(tc, r). ToolMessage (snd r) (tc_id tc)) (zip (tool_calls state) rs)"
    by auto
  then show ?thesis using l by (auto simp: call_tool_def)
qed

text \<open>The theorem at a step with two pending calls, on a history of two messages.\<close>

theorem call_tool_appends_results_in_order_witness:
  "\<exists>responses.
     agent_outcome (fst (call_tool (env_with llm_text) state_two_calls db_milk))
       = Outcome_list responses
     \<and> length responses = 2
     \<and> map fst responses = [''list_tasks'', ''create_task'']
     \<and> chat_history (fst (call_tool (env_with llm_text) state_two_calls db_milk)) =
         [HumanMessage ''add milk'', AIMessage [] [call_list, call_bad_create]]
         @ map (\<lambda>(tc, r). ToolMessage (snd r) (tc_id tc))
             (zip [call_list, call_bad_create] responses)"
proof -
  have t: "tool_calls state_two_calls = [call_list, call_bad_create]"
    and h: "chat_history state_two_calls =
              [HumanMessage ''add milk'', AIMessage [] [call_list, call_bad_create]]"
    by (simp_all add: state_two_calls_def)
  have n: "map tc_name [call_list, call_bad_create] = [''list_tasks'', ''create_task'']"
    and l: "length [call_list, call_bad_create] = 2"
    by (simp_all add: call_list_def call_bad_create_def)
  show ?thesis
    using call_tool_appends_results_in_order [of "env_with llm_text" state_two_calls db_milk]
    unfolding t h n l .
qed

text \<open>
  Claim C3, as amended. At the end of every turn the records-mutated flag
  (\<open>tasks_updated\<close>) is true only if at least one \<open>create_task\<close>, \<open>update_task\<close> or
  \<open>delete_task\<close> call was invoked during the turn, whether or not it succeeded; and it
  is true whenever the last round of tool calls of the turn invoked one. The calls of a
  turn are those its model messages carry, in the part of the history that the turn
  appended.
\<close>

theorem tasks_updated_at_turn_end:
  "process_input e n self d user_input = (Inr result, self', d') \<longrightarrow>
     (\<exists>ms. chat_history result = self_chat_history self @ ms
        \<and> (tasks_updated result \<longrightarrow> (\<exists>tcs \<in> set (tool_rounds ms). names_mutation tcs))
        \<and> (tool_rounds ms \<noteq> [] \<and> names_mutation (last (tool_rounds ms))
             \<longrightarrow> tasks_updated result))"
proof
  assume a: "process_input e n self d user_input = (Inr result, self', d')"
  let ?init = "\<lparr>input = user_input, chat_history = self_chat_history self,
                agent_outcome = Outcome_None, tool_calls = [], tasks_updated = False\<rparr>"
  from a have i: "invoke e n Model_node ?init d = (Inr result, d')"
    by (auto simp: process_input_def Let_def split: prod.splits sum.splits)
  have "\<not> tasks_updated ?init" by simp
  from invoke_flag_model [OF i this] have
    "\<exists>ms. chat_history result = self_chat_history self @ ms
       \<and> tasks_updated result
           = (tool_rounds ms \<noteq> [] \<and> names_mutation (last (tool_rounds ms)))"
    by simp
  then obtain ms where
    mu: "chat_history result = self_chat_history self @ ms
       \<and> tasks_updated result
           = (tool_rounds ms \<noteq> [] \<and> names_mutation (last (tool_rounds ms)))" ..
  then have m: "chat_history result = self_chat_history self @ ms"
    and u: "tasks_updated result
      = (tool_rounds ms \<noteq> [] \<and> names_mutation (last (tool_rounds ms)))"
    by blast+
  have "tasks_updated result \<longrightarrow> (\<exists>tcs \<in> set (tool_rounds ms). names_mutation tcs)"
    using u last_in_set by blast
  with m u show "\<exists>ms. chat_history result = self_chat_history self @ ms
        \<and> (tasks_updated result \<longrightarrow> (\<exists>tcs \<in> set (tool_rounds ms). names_mutation tcs))
        \<and> (tool_rounds ms \<noteq> [] \<and> names_mutation (last (tool_rounds ms))
             \<longrightarrow> tasks_updated result)"
    by (intro exI [of _ ms]) blast
qed

text \<open>The theorem at the turn that creates the task \<open>buy milk\<close> on the empty store.\<close>

theorem tasks_updated_at_turn_end_witness:
  "tasks_updated
     (\<lparr>input = ''add milk'', chat_history = history_created,
       agent_outcome = Outcome_str ''Added'', tool_calls = [], tasks_updated = True\<rparr>)
   \<and> (\<exists>ms. history_created = self_chat_history new_TaskAgent @ ms
         \<and> (\<exists>tcs \<in> set (tool_rounds ms). names_mutation tcs))
   \<and> process_input (env_with llm_create) 25 new_TaskAgent db_empty ''add milk''
       = (Inr \<lparr>input = ''add milk'', chat_history = history_created,
               agent_outcome = Outcome_str ''Added'', tool_calls = [], tasks_updated = True\<rparr>,
          \<lparr>self_chat_history = history_created\<rparr>, db_created)"
proof -
  let ?r = "\<lparr>input = ''add milk'', chat_history = history_created,
             agent_outcome = Outcome_str ''Added'', tool_calls = [], tasks_updated = True\<rparr>"
  have p: "process_input (env_with llm_create) 25 new_TaskAgent db_empty ''add milk''
      = (Inr ?r, \<lparr>self_chat_history = history_created\<rparr>, db_created)"
    by code_simp
  have l: "tool_rounds history_created \<noteq> [] \<and> names_mutation (last (tool_rounds history_created))"
    by code_simp
  from tasks_updated_at_turn_end [where e = "env_with llm_create" and n = 25
      and self = new_TaskAgent and d = db_empty and user_input = "''add milk''"
      and result = ?r and self' = "\<lparr>self_chat_history = history_created\<rparr>"
      and d' = db_created] p
  have "\<exists>ms. chat_history ?r = self_chat_history new_TaskAgent @ ms
        \<and> (tasks_updated ?r \<longrightarrow> (\<exists>tcs \<in> set (tool_rounds ms). names_mutation tcs))
        \<and> (tool_rounds ms \<noteq> [] \<and> names_mutation (last (tool_rounds ms))
             \<longrightarrow> tasks_updated ?r)"
    by blast
  then have "\<exists>ms. history_created = self_chat_history new_TaskAgent @ ms
         \<and> (\<exists>tcs \<in> set (tool_rounds ms). names_mutation tcs)"
    by simp
  with p l show ?thesis by simp
qed

text \<open>
  Claim C3 as stated fails: in this turn the model asks for one \<open>create_task\<close> with the
  priority \<open>urgentt\<close>; the call fails, no record is stored, no other tool is called, and
  the turn ends with \<open>tasks_updated\<close> true.
\<close>

theorem tasks_updated_without_success_counterexample:
  "process_input (env_with llm_bad_create) 25 new_TaskAgent db_empty ''add milk'' =
     (Inr \<lparr>input = ''add milk'',
           chat_history =
             [HumanMessage ''add milk'',
              AIMessage [] [call_bad_create],
              ToolMessage (Dict_result (error_response
                 (''Invalid priority: urgentt. Must be one of '' @ list_TaskPriority @ ''.'')))
                ''call_1'',
              HumanMessage ''add milk'',
              AIMessage ''Sorry'' []],
           agent_outcome = Outcome_str ''Sorry'', tool_calls = [], tasks_updated = True\<rparr>,
      \<lparr>self_chat_history =
             [HumanMessage ''add milk'',
              AIMessage [] [call_bad_create],
              ToolMessage (Dict_result (error_response
                 (''Invalid priority: urgentt. Must be one of '' @ list_TaskPriority @ ''.'')))
                ''call_1'',
              HumanMessage ''add milk'',
              AIMessage ''Sorry'' []]\<rparr>,
      db_empty)"
  by code_simp

section \<open>The tool executor and names outside the registry\<close>

text \<open>
  Claim C2, as amended. For every name that module \<open>tools\<close> does not bind and that is
  not of the form \<open>__x__\<close>, and for every argument mapping, \<open>execute_tool\<close> returns
  the error result "Tool execution failed: module 'app.tools' has no attribute '<name>'"
  and leaves the store as it was; and for every name and every argument mapping
  \<open>execute_tool\<close> returns a result: no exception passes the executor.
\<close>

theorem execute_tool_unknown_name:
  "(tool_name \<notin> set module_names \<and> \<not> dunder tool_name \<longrightarrow>
      execute_tool strptime upper foreign untyped d tool_name tool_args =
        (Inr (Dict_result (error_response
           (''Tool execution failed: module 'app.tools' has no attribute ''
            @ quoted tool_name))), d))
   \<and> (\<exists>r d'. execute_tool strptime upper foreign untyped d tool_name tool_args = (Inr r, d'))"
  using execute_tool_returns [of strptime upper foreign untyped d tool_name tool_args]
  by (auto simp: execute_tool_def getattr_call_unknown)

theorem execute_tool_unknown_name_witness:
  "execute_tool strptime_example upper_ascii foreign_none untyped_none db_milk ''frobnicate'' [(''x'', PInt 1)] =
     (Inr (Dict_result (error_response
        (''Tool execution failed: module 'app.tools' has no attribute ''
         @ quoted ''frobnicate''))), db_milk)
   \<and> (\<exists>r d'. execute_tool strptime_example upper_ascii foreign_none untyped_none db_milk ''frobnicate''
               [(''x'', PInt 1)] = (Inr r, d'))"
proof -
  have h: "''frobnicate'' \<notin> set module_names \<and> \<not> dunder ''frobnicate''"
    by code_simp
  show ?thesis
    using execute_tool_unknown_name [where tool_name = "''frobnicate''"
        and strptime = strptime_example and upper = upper_ascii and foreign = foreign_none
        and untyped = untyped_none and d = db_milk and tool_args = "[(''x'', PInt 1)]"] h
    by blast
qed

text \<open>
  Claim C2 as stated fails: \<open>get_db_session_for_tool\<close> is no registered tool, yet the
  module binds it, and the executor called with that name and no argument returns the
  session object it creates, which is no error result.
\<close>

theorem execute_tool_unregistered_counterexample:
  "''get_db_session_for_tool'' \<notin> set tools_list \<and>
   execute_tool strptime_example upper_ascii foreign_none untyped_none db_empty ''get_db_session_for_tool'' []
     = (Inr (Object_result ''Session''), db_empty)"
  by code_simp

section \<open>The user message on entering a turn\<close>

text \<open>
  Claim C4, as amended. Entering a turn, the user text is appended to the history handed
  to the turn unless that history already ends with a \<open>HumanMessage\<close> of that identical
  text; the model's first answer is appended next, and when that answer asks for no tool
  nothing else is appended. This holds for a run of the graph from its entry point and
  for \<open>process_input\<close>, whose stored history becomes that of the run. So a turn on a
  history that already ends with the text, answered directly, leaves one
  \<open>HumanMessage\<close> for it.
\<close>

theorem turn_entry_appends_input_unless_last:
  "(invoke e n Model_node state d = (Inr result, d') \<longrightarrow>
      (\<exists>response rest.
         llm_of e (if chat_history state \<noteq> [] \<and> last (chat_history state) = HumanMessage (input state)
                   then chat_history state
                   else chat_history state @ [HumanMessage (input state)]) = Inr response
         \<and> chat_history result =
             (if chat_history state \<noteq> [] \<and> last (chat_history state) = HumanMessage (input state)
              then chat_history state
              else chat_history state @ [HumanMessage (input state)])
             @ AIMessage (content response) (response_tool_calls response) # rest
         \<and> (response_tool_calls response = [] \<longrightarrow> rest = [])))
   \<and> (process_input e n self d user_input = (Inr result, self', d') \<longrightarrow>
      (\<exists>response rest.
         llm_of e (if self_chat_history self \<noteq> [] \<and> last (self_chat_history self) = HumanMessage user_input
                   then self_chat_history self
                   else self_chat_history self @ [HumanMessage user_input]) = Inr response
         \<and> self_chat_history self' =
             (if self_chat_history self \<noteq> [] \<and> last (self_chat_history self) = HumanMessage user_input
              then self_chat_history self
              else self_chat_history self @ [HumanMessage user_input])
             @ AIMessage (content response) (response_tool_calls response) # rest
         \<and> (response_tool_calls response = [] \<longrightarrow> rest = [])))"
proof -
  have main: "\<exists>response rest.
         llm_of e (if h \<noteq> [] \<and> last h = HumanMessage inp then h
                   else h @ [HumanMessage inp]) = Inr response
         \<and> chat_history res =
             (if h \<noteq> [] \<and> last h = HumanMessage inp then h else h @ [HumanMessage inp])
             @ AIMessage (content response) (response_tool_calls response) # rest
         \<and> (response_tool_calls response = [] \<longrightarrow> rest = [])"
    if i: "invoke e n Model_node st d = (Inr res, d')"
      and hh: "chat_history st = h" and ii: "input st = inp" for st res h inp
  proof -
    let ?entry = "if h \<noteq> [] \<and> last h = HumanMessage inp then h else h @ [HumanMessage inp]"
    from i obtain k where n: "n = Suc k" by (cases n) auto
    from i n obtain st1 where c: "call_model e st = Inr st1"
      by (auto split: sum.splits)
    from call_model_result [OF c] obtain response where
      r: "llm_of e ?entry = Inr response
          \<and> chat_history st1 = ?entry @ [AIMessage (content response) (response_tool_calls response)]
          \<and> tool_calls st1 = response_tool_calls response
          \<and> tasks_updated st1 = tasks_updated st
          \<and> input st1 = input st"
      unfolding hh ii ..
    then have l: "llm_of e ?entry = Inr response"
      and h: "chat_history st1 = ?entry @ [AIMessage (content response) (response_tool_calls response)]"
      and t: "tool_calls st1 = response_tool_calls response"
      by blast+
    show ?thesis
    proof (cases "should_continue st1")
      case False
      with i n c have "res = st1" by simp
      with l h show ?thesis
        by (intro exI [of _ response] exI [of _ "[]"]) simp
    next
      case True
      with i n c have "invoke e k Tool_node st1 d = (Inr res, d')" by simp
      from invoke_extends [OF this] obtain ms where "chat_history res = chat_history st1 @ ms" ..
      moreover from True t have "response_tool_calls response \<noteq> []"
        by (simp add: should_continue_def)
      ultimately show ?thesis using l h
        by (intro exI [of _ response] exI [of _ ms]) simp
    qed
  qed
  show ?thesis
  proof (intro conjI impI)
    assume "invoke e n Model_node state d = (Inr result, d')"
    from main [OF this refl refl] show "\<exists>response rest.
         llm_of e (if chat_history state \<noteq> [] \<and> last (chat_history state) = HumanMessage (input state)
                   then chat_history state
                   else chat_history state @ [HumanMessage (input state)]) = Inr response
         \<and> chat_history result =
             (if chat_history state \<noteq> [] \<and> last (chat_history state) = HumanMessage (input state)
              then chat_history state
              else chat_history state @ [HumanMessage (input state)])
             @ AIMessage (content response) (response_tool_calls response) # rest
         \<and> (response_tool_calls response = [] \<longrightarrow> rest = [])" .
  next
    assume a: "process_input e n self d user_input = (Inr result, self', d')"
    let ?init = "\<lparr>input = user_input, chat_history = self_chat_history self,
                  agent_outcome = Outcome_None, tool_calls = [], tasks_updated = False\<rparr>"
    from a have i: "invoke e n Model_node ?init d = (Inr result, d')"
      and s: "self_chat_history self' = chat_history result"
      by (auto simp: process_input_def Let_def split: prod.splits sum.splits)
    have hh: "chat_history ?init = self_chat_history self" and ii: "input ?init = user_input"
      by simp_all
    from main [OF i hh ii] show "\<exists>response rest.
         llm_of e (if self_chat_history self \<noteq> [] \<and> last (self_chat_history self) = HumanMessage user_input
                   then self_chat_history self
                   else self_chat_history self @ [HumanMessage user_input]) = Inr response
         \<and> self_chat_history self' =
             (if self_chat_history self \<noteq> [] \<and> last (self_chat_history self) = HumanMessage user_input
              then self_chat_history self
              else self_chat_history self @ [HumanMessage user_input])
             @ AIMessage (content response) (response_tool_calls response) # rest
         \<and> (response_tool_calls response = [] \<longrightarrow> rest = [])"
      unfolding s .
  qed
qed

text \<open>The theorem at a history that holds the text \<open>hi\<close> as its only message, for a
  turn with the input \<open>hi\<close> that the model answers in text.\<close>

theorem turn_entry_appends_input_unless_last_witness:
  "process_input (env_with llm_text) 25 \<lparr>self_chat_history = [HumanMessage ''hi'']\<rparr> db_empty ''hi''
     = (Inr \<lparr>input = ''hi'', chat_history = [HumanMessage ''hi'', AIMessage ''ok'' []],
             agent_outcome = Outcome_str ''ok'', tool_calls = [], tasks_updated = False\<rparr>,
        \<lparr>self_chat_history = [HumanMessage ''hi'', AIMessage ''ok'' []]\<rparr>, db_empty)
   \<and> invoke (env_with llm_text) 25 Model_node
        \<lparr>input = ''hi'', chat_history = [HumanMessage ''hi''], agent_outcome = Outcome_None,
         tool_calls = [], tasks_updated = False\<rparr> db_empty
     = (Inr \<lparr>input = ''hi'', chat_history = [HumanMessage ''hi'', AIMessage ''ok'' []],
             agent_outcome = Outcome_str ''ok'', tool_calls = [], tasks_updated = False\<rparr>,
        db_empty)
   \<and> (\<exists>response rest.
         llm_text [HumanMessage ''hi''] = Inr response
         \<and> [HumanMessage ''hi'', AIMessage ''ok'' []] =
             [HumanMessage ''hi'']
             @ AIMessage (content response) (response_tool_calls response) # rest
         \<and> rest = [])"
proof -
  let ?st = "\<lparr>input = ''hi'', chat_history = [HumanMessage ''hi''], agent_outcome = Outcome_None,
         tool_calls = [], tasks_updated = False\<rparr>"
  let ?res = "\<lparr>input = ''hi'', chat_history = [HumanMessage ''hi'', AIMessage ''ok'' []],
             agent_outcome = Outcome_str ''ok'', tool_calls = [], tasks_updated = False\<rparr>"
  have p: "process_input (env_with llm_text) 25 \<lparr>self_chat_history = [HumanMessage ''hi'']\<rparr>
      db_empty ''hi''
     = (Inr ?res, \<lparr>self_chat_history = [HumanMessage ''hi'', AIMessage ''ok'' []]\<rparr>, db_empty)"
    by code_simp
  have i: "invoke (env_with llm_text) 25 Model_node ?st db_empty = (Inr ?res, db_empty)"
    by code_simp
  have l: "llm_of (env_with llm_text) = llm_text"
    by (simp add: env_with_def)
  have t: "response_tool_calls response = []" if "llm_text ms = Inr response" for ms response
    using that by (auto simp: llm_text_def)
  from turn_entry_appends_input_unless_last [where e = "env_with llm_text" and n = 25
      and state = ?st and d = db_empty and result = ?res and d' = db_empty
      and self = "\<lparr>self_chat_history = [HumanMessage ''hi'']\<rparr>" and user_input = "''hi''"
      and self' = "\<lparr>self_chat_history = [HumanMessage ''hi'', AIMessage ''ok'' []]\<rparr>"] p i
  have "\<exists>response rest.
         llm_text [HumanMessage ''hi''] = Inr response
         \<and> [HumanMessage ''hi'', AIMessage ''ok'' []] =
             [HumanMessage ''hi'']
             @ AIMessage (content response) (response_tool_calls response) # rest
         \<and> (response_tool_calls response = [] \<longrightarrow> rest = [])"
    by (simp add: l)
  then have "\<exists>response rest.
         llm_text [HumanMessage ''hi''] = Inr response
         \<and> [HumanMessage ''hi'', AIMessage ''ok'' []] =
             [HumanMessage ''hi'']
             @ AIMessage (content response) (response_tool_calls response) # rest
         \<and> rest = []"
    using t by blast
  with p i show ?thesis by blast
qed

text \<open>
  Claim C4 as stated fails: a new session is given the text \<open>hi\<close> twice in succession;
  the model answers each time in text. The first turn leaves the stored history ending
  with the model's answer, so the second turn appends the text again: the history holds
  two \<open>HumanMessage\<close>s for it.
\<close>

theorem process_input_twice_counterexample:
  "process_input (env_with llm_text) 25 new_TaskAgent db_empty ''hi'' =
     (Inr \<lparr>input = ''hi'', chat_history = [HumanMessage ''hi'', AIMessage ''ok'' []],
           agent_outcome = Outcome_str ''ok'', tool_calls = [], tasks_updated = False\<rparr>,
      \<lparr>self_chat_history = [HumanMessage ''hi'', AIMessage ''ok'' []]\<rparr>, db_empty)
   \<and> process_input (env_with llm_text) 25
       \<lparr>self_chat_history = [HumanMessage ''hi'', AIMessage ''ok'' []]\<rparr> db_empty ''hi'' =
     (Inr \<lparr>input = ''hi'',
           chat_history = [HumanMessage ''hi'', AIMessage ''ok'' [],
                           HumanMessage ''hi'', AIMessage ''ok'' []],
           agent_outcome = Outcome_str ''ok'', tool_calls = [], tasks_updated = False\<rparr>,
      \<lparr>self_chat_history = [HumanMessage ''hi'', AIMessage ''ok'' [],
                            HumanMessage ''hi'', AIMessage ''ok'' []]\<rparr>, db_empty)"
  by code_simp

section \<open>A fault of the language model\<close>

text \<open>
  Claim C5. When the model invocation raises at any model step of a turn, the first one
  or one after any number of tool rounds (the run has reached the model node in \<open>k\<close>
  steps, within the recursion limit), \<open>process_input\<close> ends with that exception and
  the session is the one from before the turn; and whenever \<open>process_input\<close> ends
  with an exception, the session's stored chat history is the one from before the turn.
\<close>

theorem model_fault_keeps_history:
  "(after_steps e k Model_node
       \<lparr>input = user_input, chat_history = self_chat_history self,
        agent_outcome = Outcome_None, tool_calls = [], tasks_updated = False\<rparr> d
       = Some (Model_node, state, dk)
     \<and> k < recursion_limit
     \<and> llm_of e (if chat_history state \<noteq> [] \<and> last (chat_history state) = HumanMessage (input state)
                 then chat_history state
                 else chat_history state @ [HumanMessage (input state)]) = Inl err
     \<longrightarrow> process_input e recursion_limit self d user_input = (Inl err, self, dk))
   \<and> (process_input e recursion_limit self d user_input = (Inl err', self', d')
      \<longrightarrow> self' = self)"
proof (intro conjI impI)
  let ?init = "\<lparr>input = user_input, chat_history = self_chat_history self,
                agent_outcome = Outcome_None, tool_calls = [], tasks_updated = False\<rparr>"
  assume a: "after_steps e k Model_node ?init d = Some (Model_node, state, dk)
     \<and> k < recursion_limit
     \<and> llm_of e (if chat_history state \<noteq> [] \<and> last (chat_history state) = HumanMessage (input state)
                 then chat_history state
                 else chat_history state @ [HumanMessage (input state)]) = Inl err"
  then have a1: "after_steps e k Model_node ?init d = Some (Model_node, state, dk)"
    and a2: "k < recursion_limit"
    and a3: "llm_of e (if chat_history state \<noteq> [] \<and> last (chat_history state) = HumanMessage (input state)
                 then chat_history state
                 else chat_history state @ [HumanMessage (input state)]) = Inl err"
    by (rule conjunct1, rule conjunct1 [OF conjunct2], rule conjunct2 [OF conjunct2])
  from a2 obtain m where m: "recursion_limit = k + Suc m"
    using less_imp_Suc_add [of k recursion_limit] by auto
  from a3 have "call_model e state = Inl err"
    by (simp add: call_model_def Let_def ends_with_input_iff)
  then have "invoke e (Suc m) Model_node state dk = (Inl err, dk)" by simp
  with invoke_after_steps [OF a1, of "Suc m"]
  have "invoke e (k + Suc m) Model_node ?init d = (Inl err, dk)" by simp
  then show "process_input e recursion_limit self d user_input = (Inl err, self, dk)"
    unfolding m by (simp add: process_input_def)
next
  assume "process_input e recursion_limit self d user_input = (Inl err', self', d')"
  then show "self' = self"
    by (auto simp: process_input_def Let_def split: sum.splits prod.splits)
qed

text \<open>The theorem at a turn whose model asks for a tool and is unreachable afterwards:
  the fault comes at the third step, after the tool round.\<close>

theorem model_fault_keeps_history_witness:
  "after_steps (env_with llm_fault_after_tool) 2 Model_node
       \<lparr>input = ''add milk'', chat_history = self_chat_history new_TaskAgent,
        agent_outcome = Outcome_None, tool_calls = [], tasks_updated = False\<rparr> db_milk
     = Some (Model_node, state_after_bad_create, db_milk)
   \<and> process_input (env_with llm_fault_after_tool) 25 new_TaskAgent db_milk ''add milk''
     = (Inl (ModelInvocationError ''model unreachable''), new_TaskAgent, db_milk)"
proof -
  have a: "after_steps (env_with llm_fault_after_tool) 2 Model_node
       \<lparr>input = ''add milk'', chat_history = self_chat_history new_TaskAgent,
        agent_outcome = Outcome_None, tool_calls = [], tasks_updated = False\<rparr> db_milk
     = Some (Model_node, state_after_bad_create, db_milk)"
    by code_simp
  have f: "llm_of (env_with llm_fault_after_tool)
      (if chat_history state_after_bad_create \<noteq> []
          \<and> last (chat_history state_after_bad_create) = HumanMessage (input state_after_bad_create)
       then chat_history state_after_bad_create
       else chat_history state_after_bad_create @ [HumanMessage (input state_after_bad_create)])
     = Inl (ModelInvocationError ''model unreachable'')"
    by code_simp
  have k: "(2::nat) < 25" by simp
  from model_fault_keeps_history [where e = "env_with llm_fault_after_tool" and k = 2
      and user_input = "''add milk''" and self = new_TaskAgent and d = db_milk
      and state = state_after_bad_create and dk = db_milk and recursion_limit = 25
      and err = "ModelInvocationError ''model unreachable''"
      and err' = "ModelInvocationError ''model unreachable''" and self' = new_TaskAgent
      and d' = db_milk] a f k
  have "process_input (env_with llm_fault_after_tool) 25 new_TaskAgent db_milk ''add milk''
     = (Inl (ModelInvocationError ''model unreachable''), new_TaskAgent, db_milk)"
    by blast
  with a show ?thesis by blast
qed

section \<open>The final text\<close>

text \<open>
  Claim C10. When the outcome is neither a text nor a list, \<open>get_final_response\<close>
  returns "Task completed successfully."; and for the result of every completed turn it
  returns a text.
\<close>

theorem get_final_response_default:
  "((\<forall>s. agent_outcome result \<noteq> Outcome_str s)
      \<and> (\<forall>items. agent_outcome result \<noteq> Outcome_list items)
      \<longrightarrow> get_final_response get_raises result = Inr ''Task completed successfully.'')
   \<and> (process_input e n self d user_input = (Inr result', self', d')
      \<longrightarrow> (\<exists>s. get_final_response get_raises result' = Inr s))"
proof (intro conjI impI)
  assume "(\<forall>s. agent_outcome result \<noteq> Outcome_str s)
      \<and> (\<forall>items. agent_outcome result \<noteq> Outcome_list items)"
  then show "get_final_response get_raises result = Inr ''Task completed successfully.''"
    by (cases "agent_outcome result") (simp_all add: get_final_response_def)
next
  assume a: "process_input e n self d user_input = (Inr result', self', d')"
  then obtain st where "invoke e n Model_node st d = (Inr result', d')"
    by (auto simp: process_input_def Let_def split: prod.splits sum.splits)
  then obtain s where "agent_outcome result' = Outcome_str s"
    using invoke_outcome_str by blast
  then show "\<exists>s. get_final_response get_raises result' = Inr s"
    by (simp add: get_final_response_def)
qed

theorem get_final_response_default_witness:
  "get_final_response get_none (state_with Outcome_None) = Inr ''Task completed successfully.''
   \<and> (\<exists>s. get_final_response get_none
         \<lparr>input = ''hi'', chat_history = [HumanMessage ''hi'', AIMessage ''ok'' []],
          agent_outcome = Outcome_str ''ok'', tool_calls = [], tasks_updated = False\<rparr> = Inr s)"
proof -
  have p: "process_input (env_with llm_text) 25 new_TaskAgent db_empty ''hi'' =
      (Inr \<lparr>input = ''hi'', chat_history = [HumanMessage ''hi'', AIMessage ''ok'' []],
          agent_outcome = Outcome_str ''ok'', tool_calls = [], tasks_updated = False\<rparr>,
       \<lparr>self_chat_history = [HumanMessage ''hi'', AIMessage ''ok'' []]\<rparr>, db_empty)"
    by code_simp
  have o: "(\<forall>s. agent_outcome (state_with Outcome_None) \<noteq> Outcome_str s)
      \<and> (\<forall>items. agent_outcome (state_with Outcome_None) \<noteq> Outcome_list items)"
    by (simp add: state_with_def)
  show ?thesis
    using get_final_response_default [where result = "state_with Outcome_None"
        and get_raises = get_none and e = "env_with llm_text" and n = 25
        and self = new_TaskAgent and d = db_empty and user_input = "''hi''" and d' = db_empty]
      p o
    by simp
qed

section \<open>Selecting the task of an update or a deletion\<close>

lemma lower_char_percent: "lower_char c = CHR ''%'' \<longleftrightarrow> c = CHR ''%''"
  by (simp add: lower_char_def)

lemma lower_char_underscore: "lower_char c = CHR ''_'' \<longleftrightarrow> c = CHR ''_''"
  by (simp add: lower_char_def)

lemma like_percent: "like ''%'' s"
  by (induction s) simp_all

lemma like_literal_prefix:
  "CHR ''%'' \<notin> set w \<Longrightarrow> CHR ''_'' \<notin> set w \<Longrightarrow> like (w @ ''%'') s \<longleftrightarrow> prefix w s"
proof (induction w arbitrary: s)
  case Nil
  then show ?case using like_percent by simp
next
  case (Cons p w)
  then show ?case by (cases s) auto
qed

lemma like_contains:
  "CHR ''%'' \<notin> set w \<Longrightarrow> CHR ''_'' \<notin> set w \<Longrightarrow> like (CHR ''%'' # w @ ''%'') s \<longleftrightarrow> sublist w s"
proof (induction s)
  case Nil
  then show ?case using like_literal_prefix [of w "[]"] by auto
next
  case (Cons c s)
  then show ?case using like_literal_prefix [of w "c # s"]
    by (simp add: sublist_Cons_right)
qed

lemma ilike_contains:
  assumes "CHR ''%'' \<notin> set w" "CHR ''_'' \<notin> set w"
  shows "ilike s (''%'' @ w @ ''%'') \<longleftrightarrow> sublist (lower w) (lower s)"
proof -
  have "CHR ''%'' \<notin> set (lower w)" "CHR ''_'' \<notin> set (lower w)"
  proof -
    show "CHR ''%'' \<notin> set (lower w)"
    proof
      assume "CHR ''%'' \<in> set (lower w)"
      then obtain c where "c \<in> set w" "lower_char c = CHR ''%''"
        unfolding lower_def by force
      then show False using assms(1) lower_char_percent by metis
    qed
    show "CHR ''_'' \<notin> set (lower w)"
    proof
      assume "CHR ''_'' \<in> set (lower w)"
      then obtain c where "c \<in> set w" "lower_char c = CHR ''_''"
        unfolding lower_def by force
      then show False using assms(2) lower_char_underscore by metis
    qed
  qed
  then have "like (CHR ''%'' # lower w @ ''%'') (lower s) \<longleftrightarrow> sublist (lower w) (lower s)"
    by (rule like_contains)
  moreover have "lower (''%'' @ w @ ''%'') = CHR ''%'' # lower w @ ''%''"
    by (simp add: lower_def lower_char_def)
  ultimately show ?thesis by (simp only: ilike_def)
qed

lemma select_task_none:
  assumes "store_fault d = None"
    and "truthy_int task_id \<longrightarrow> (\<forall>t \<in> set (rows d). row_id t \<noteq> the task_id)"
    and "\<not> truthy_int task_id \<and> truthy_str title_match \<longrightarrow>
           (\<forall>t \<in> set (rows d). \<not> ilike (row_title t) (''%'' @ the title_match @ ''%''))"
  shows "select_task (get_db_session_for_tool d) task_id title_match = Inr None"
  using assms
  by (auto simp: select_task_def query_first_def get_db_session_for_tool_def find_None_iff)

text \<open>
  Claim C6, as amended. While the store answers: an \<open>update_task\<close> or
  \<open>delete_task\<close> call whose selection finds no row (no row has the given id when
  \<open>task_id\<close> is truthy; otherwise no title matches when \<open>title_match\<close> is truthy;
  otherwise no selection at all) returns the error result
  "Task not found with ID <task_id or title_match>." and leaves the store as it was. The
  title is matched by case-insensitive SQL \<open>LIKE\<close> against \<open>%title_match%\<close>, which is
  case-insensitive substring matching whenever \<open>title_match\<close> holds neither \<open>%\<close> nor
  \<open>_\<close>; and the row selected by title is the first matching row in storage order.
\<close>

theorem task_not_found:
  "(store_fault d = None
      \<and> (truthy_int task_id \<longrightarrow> (\<forall>t \<in> set (rows d). row_id t \<noteq> the task_id))
      \<and> (\<not> truthy_int task_id \<and> truthy_str title_match \<longrightarrow>
           (\<forall>t \<in> set (rows d). \<not> ilike (row_title t) (''%'' @ the title_match @ ''%'')))
      \<longrightarrow> update_task strptime upper d task_id title_match new_title new_description new_status
            new_due_date new_priority
          = (error_response (''Task not found with ID '' @ selector task_id title_match @ ''.''), d)
        \<and> delete_task d task_id title_match
          = (error_response (''Task not found with ID '' @ selector task_id title_match @ ''.''), d))
   \<and> (CHR ''%'' \<notin> set w \<and> CHR ''_'' \<notin> set w \<longrightarrow>
        ilike s (''%'' @ w @ ''%'') = sublist (lower w) (lower s))
   \<and> (store_fault d = None \<and> \<not> truthy_int task_id \<and> truthy_str title_match \<longrightarrow>
        select_task (get_db_session_for_tool d) task_id title_match
          = Inr (find (\<lambda>t. ilike (row_title t) (''%'' @ the title_match @ ''%'')) (rows d)))"
proof (intro conjI impI)
  assume a: "store_fault d = None
      \<and> (truthy_int task_id \<longrightarrow> (\<forall>t \<in> set (rows d). row_id t \<noteq> the task_id))
      \<and> (\<not> truthy_int task_id \<and> truthy_str title_match \<longrightarrow>
           (\<forall>t \<in> set (rows d). \<not> ilike (row_title t) (''%'' @ the title_match @ ''%'')))"
  then have s: "select_task (get_db_session_for_tool d) task_id title_match = Inr None"
    using select_task_none by blast
  show "update_task strptime upper d task_id title_match new_title new_description new_status
            new_due_date new_priority
          = (error_response (''Task not found with ID '' @ selector task_id title_match @ ''.''), d)"
    by (simp add: update_task_def Let_def s db_close_session)
  show "delete_task d task_id title_match
          = (error_response (''Task not found with ID '' @ selector task_id title_match @ ''.''), d)"
    by (simp add: delete_task_def Let_def s db_close_session)
next
  assume "CHR ''%'' \<notin> set w \<and> CHR ''_'' \<notin> set w"
  then show "ilike s (''%'' @ w @ ''%'') = sublist (lower w) (lower s)"
    using ilike_contains by blast
next
  assume "store_fault d = None \<and> \<not> truthy_int task_id \<and> truthy_str title_match"
  then show "select_task (get_db_session_for_tool d) task_id title_match
          = Inr (find (\<lambda>t. ilike (row_title t) (''%'' @ the title_match @ ''%'')) (rows d))"
    by (simp add: select_task_def query_first_def get_db_session_for_tool_def)
qed

text \<open>
  The theorem at \<open>update_task(task_id=999, new_status="done")\<close> and
  \<open>delete_task(task_id=999)\<close> on a store without a task 999, and at the title match
  \<open>MILK\<close> against the title \<open>Buy Milk\<close>.
\<close>

theorem task_not_found_witness:
  "update_task strptime_example upper_ascii db_milk (Some 999) None None None (Some ''done'') None None
     = (error_response ''Task not found with ID 999.'', db_milk)
   \<and> delete_task db_milk (Some 999) None
     = (error_response ''Task not found with ID 999.'', db_milk)
   \<and> ilike ''Buy Milk'' (''%'' @ ''MILK'' @ ''%'') = sublist (lower ''MILK'') (lower ''Buy Milk'')
   \<and> select_task (get_db_session_for_tool db_milk) None (Some ''MILK'') = Inr (Some task_milk)"
proof -
  have h1: "store_fault db_milk = None
      \<and> (truthy_int (Some 999) \<longrightarrow> (\<forall>t \<in> set (rows db_milk). row_id t \<noteq> the (Some 999)))
      \<and> (\<not> truthy_int (Some 999) \<and> truthy_str None \<longrightarrow>
           (\<forall>t \<in> set (rows db_milk). \<not> ilike (row_title t) (''%'' @ the None @ ''%'')))"
    by (simp add: db_milk_def task_milk_def)
  have h2: "CHR ''%'' \<notin> set ''MILK'' \<and> CHR ''_'' \<notin> set ''MILK''"
    by simp
  have h3: "store_fault db_milk = None \<and> \<not> truthy_int None \<and> truthy_str (Some ''MILK'')"
    by (simp add: db_milk_def)
  have s: "selector (Some 999) None = ''999''"
    by code_simp
  have f: "find (\<lambda>t. ilike (row_title t) (''%'' @ the (Some ''MILK'') @ ''%'')) (rows db_milk)
      = Some task_milk"
    by code_simp
  show ?thesis
    using task_not_found [where d = db_milk and task_id = "Some 999" and title_match = None
        and strptime = strptime_example and upper = upper_ascii and new_title = None
        and new_description = None and new_status = "Some ''done''" and new_due_date = None
        and new_priority = None and w = "''MILK''" and s = "''Buy Milk''"]
      task_not_found [where d = db_milk and task_id = None and title_match = "Some ''MILK''"
        and strptime = strptime_example and upper = upper_ascii and new_title = None
        and new_description = None and new_status = None and new_due_date = None
        and new_priority = None and w = "''MILK''" and s = "''Buy Milk''"] h1 h2 h3 s f
    by simp
qed

text \<open>
  Claim C6 as stated fails: \<open>b_y\<close> is no substring of \<open>Buy Milk\<close> in any case, so by
  substring matching \<open>update_task(title_match="b_y", new_status="done")\<close> would find
  no record; but \<open>_\<close> is a wildcard of \<open>LIKE\<close>, the task is found and the update goes
  through.
\<close>

theorem title_wildcard_counterexample:
  "\<not> sublist (lower ''b_y'') (lower ''Buy Milk'') \<and>
   update_task strptime_example upper_ascii db_milk None (Some ''b_y'') None None (Some ''done'') None None =
    (success_task (''Task '' @ quoted ''Buy Milk'' @ '' updated successfully.'')
       (task_milk\<lparr>row_status := DONE, row_updated_at := 100\<rparr>),
     db_milk\<lparr>rows := [task_milk\<lparr>row_status := DONE, row_updated_at := 100\<rparr>]\<rparr>)"
  by code_simp


section \<open>Defaults of a created task\<close>

lemma parse_date_arg_absent:
  "\<not> truthy_str due_date \<Longrightarrow> parse_date_arg strptime due_date = Some None"
  by (cases due_date) auto

lemma find_after_none: "find P xs = None \<Longrightarrow> find P (xs @ ys) = find P ys"
  by (induction xs) (auto split: if_splits)

text \<open>
  Claim C7, as amended. While the store answers and its next key is unused, every
  \<open>create_task\<close> call with no due date and no priority (each absent or empty) succeeds,
  and the task it stores and returns has the given title, priority \<open>medium\<close> and status
  \<open>todo\<close>.
\<close>

theorem create_task_defaults:
  "store_fault d = None \<and> (\<forall>r \<in> set (rows d). row_id r \<noteq> next_id d)
     \<and> \<not> truthy_str due_date \<and> \<not> truthy_str priority
   \<longrightarrow> (\<exists>t. create_task strptime upper d title description due_date priority
            = (success_task (''Task '' @ quoted title @ '' created successfully with ID ''
                             @ str_int (next_id d) @ ''.'') t,
               d\<lparr>rows := rows d @ [t], next_id := next_id d + 1\<rparr>)
          \<and> row_title t = title \<and> row_priority t = MEDIUM \<and> row_status t = TODO
          \<and> row_due_date t = None \<and> row_id t = next_id d)"
proof
  assume a: "store_fault d = None \<and> (\<forall>r \<in> set (rows d). row_id r \<noteq> next_id d)
     \<and> \<not> truthy_str due_date \<and> \<not> truthy_str priority"
  let ?t = "\<lparr>row_id = next_id d, row_title = title, row_description = description,
             row_status = TODO, row_due_date = None, row_priority = MEDIUM,
             row_created_at = clock d, row_updated_at = clock d\<rparr>"
  from a have nf: "find (\<lambda>r. row_id r = next_id d) (rows d) = None"
    by (simp add: find_None_iff)
  have "create_task strptime upper d title description due_date priority
          = (success_task (''Task '' @ quoted title @ '' created successfully with ID ''
                             @ str_int (next_id d) @ ''.'') ?t,
             d\<lparr>rows := rows d @ [?t], next_id := next_id d + 1\<rparr>)"
    using a nf
    by (simp add: create_task_def Let_def parse_date_arg_absent get_db_session_for_tool_def
        db_add_def db_commit_def flush_def insert_row_def db_refresh_def db_close_def
        find_after_none)
  then show "\<exists>t. create_task strptime upper d title description due_date priority
            = (success_task (''Task '' @ quoted title @ '' created successfully with ID ''
                             @ str_int (next_id d) @ ''.'') t,
               d\<lparr>rows := rows d @ [t], next_id := next_id d + 1\<rparr>)
          \<and> row_title t = title \<and> row_priority t = MEDIUM \<and> row_status t = TODO
          \<and> row_due_date t = None \<and> row_id t = next_id d"
    by (intro exI [of _ ?t]) simp
qed

text \<open>
  The theorem at \<open>create_task(title="call mum")\<close> on the store with one task.
\<close>

theorem create_task_defaults_witness:
  "\<exists>t. create_task strptime_example upper_ascii db_milk ''call mum'' None None None
            = (success_task (''Task '' @ quoted ''call mum'' @ '' created successfully with ID ''
                             @ ''2'' @ ''.'') t,
               db_milk\<lparr>rows := rows db_milk @ [t], next_id := 3\<rparr>)
          \<and> row_title t = ''call mum'' \<and> row_priority t = MEDIUM \<and> row_status t = TODO
          \<and> row_due_date t = None \<and> row_id t = 2"
proof -
  have h: "store_fault db_milk = None \<and> (\<forall>r \<in> set (rows db_milk). row_id r \<noteq> next_id db_milk)
     \<and> \<not> truthy_str None \<and> \<not> truthy_str None"
    by (simp add: db_milk_def task_milk_def)
  have n: "next_id db_milk = 2" by (simp add: db_milk_def)
  have s: "str_int 2 = ''2''" by code_simp
  show ?thesis
    using create_task_defaults [where d = db_milk and due_date = None and priority = None
        and strptime = strptime_example and upper = upper_ascii and title = "''call mum''"
        and description = None] h
    unfolding n s by simp
qed

text \<open>
  Claim C7 as stated fails: \<open>create_task(title="buy milk", priority="high")\<close> has a
  valid title and no due date, and the task it stores has priority \<open>high\<close>.
\<close>

theorem create_task_priority_counterexample:
  "create_task strptime_example upper_ascii db_empty ''buy milk'' None None (Some ''high'') =
    (success_task (''Task '' @ quoted ''buy milk'' @ '' created successfully with ID 1.'')
       \<lparr>row_id = 1, row_title = ''buy milk'', row_description = None, row_status = TODO,
        row_due_date = None, row_priority = HIGH, row_created_at = 100, row_updated_at = 100\<rparr>,
     \<lparr>rows = [\<lparr>row_id = 1, row_title = ''buy milk'', row_description = None, row_status = TODO,
        row_due_date = None, row_priority = HIGH, row_created_at = 100, row_updated_at = 100\<rparr>],
      next_id = 2, clock = 100, store_fault = None\<rparr>)"
  by code_simp


section \<open>Invalid values and the store\<close>

lemma db_close_assign: "db_close (snd (assign ts t)) = db_close (snd ts)"
  by (simp add: assign_def db_set_def db_close_def)

lemma db_close_set_title: "db_close (snd (set_title ts v)) = db_close (snd ts)"
  by (cases v) (simp_all add: db_close_assign)

lemma db_close_set_description: "db_close (snd (set_description ts v)) = db_close (snd ts)"
  by (cases v) (simp_all add: db_close_assign)

lemma set_status_cases:
  "(\<exists>r. set_status upper ts v = Inl r \<and> r_status r = Some ''error'')
   \<or> (\<exists>ts'. set_status upper ts v = Inr ts' \<and> db_close (snd ts') = db_close (snd ts)
         \<and> \<not> (truthy_str v \<and> TaskStatus_by_name (upper (the v)) = None))"
proof (cases v)
  case None
  then show ?thesis by simp
next
  case (Some a)
  then show ?thesis
    by (cases "a = []"; cases "TaskStatus_by_name (upper a)")
       (simp_all add: db_close_assign error_response_def)
qed

lemma set_due_date_cases:
  "(\<exists>r. set_due_date strptime ts v = Inl r \<and> r_status r = Some ''error'')
   \<or> (\<exists>ts'. set_due_date strptime ts v = Inr ts' \<and> db_close (snd ts') = db_close (snd ts)
         \<and> \<not> (truthy_str v \<and> strptime (the v) = None))"
proof (cases v)
  case None
  then show ?thesis by simp
next
  case (Some a)
  then show ?thesis
    by (cases "a = []"; cases "strptime a")
       (simp_all add: db_close_assign error_response_def)
qed

lemma set_priority_cases:
  "(\<exists>r. set_priority upper ts v = Inl r \<and> r_status r = Some ''error'')
   \<or> (\<exists>ts'. set_priority upper ts v = Inr ts' \<and> db_close (snd ts') = db_close (snd ts)
         \<and> \<not> (truthy_str v \<and> TaskPriority_by_name (upper (the v)) = None))"
proof (cases v)
  case None
  then show ?thesis by simp
next
  case (Some a)
  then show ?thesis
    by (cases "a = []"; cases "TaskPriority_by_name (upper a)")
       (simp_all add: db_close_assign error_response_def)
qed

lemma create_task_invalid:
  assumes "(truthy_str priority \<and> TaskPriority_by_name (upper (the priority)) = None)
         \<or> (truthy_str due_date \<and> strptime (the due_date) = None)"
  shows "snd (create_task strptime upper d title description due_date priority) = d
       \<and> r_status (fst (create_task strptime upper d title description due_date priority)) = Some ''error''"
proof (cases "parse_date_arg strptime due_date")
  case None
  then show ?thesis
    by (simp add: create_task_def Let_def db_close_session error_response_def)
next
  case (Some dd)
  then have "\<not> (truthy_str due_date \<and> strptime (the due_date) = None)"
    by (cases due_date; cases "strptime (the due_date)") (auto split: if_splits)
  with assms have "truthy_str priority" "TaskPriority_by_name (upper (the priority)) = None"
    by auto
  with Some show ?thesis
    by (simp add: create_task_def Let_def db_close_session error_response_def)
qed

lemma update_task_invalid:
  assumes inv: "(truthy_str new_status \<and> TaskStatus_by_name (upper (the new_status)) = None)
         \<or> (truthy_str new_due_date \<and> strptime (the new_due_date) = None)
         \<or> (truthy_str new_priority \<and> TaskPriority_by_name (upper (the new_priority)) = None)"
  shows "snd (update_task strptime upper d task_id title_match new_title new_description new_status
                new_due_date new_priority) = d
       \<and> r_status (fst (update_task strptime upper d task_id title_match new_title new_description
                new_status new_due_date new_priority)) = Some ''error''"
proof (cases "select_task (get_db_session_for_tool d) task_id title_match")
  case (Inl e)
  then show ?thesis
    by (simp add: update_task_def Let_def db_close_rollback db_close_session error_response_def)
next
  case (Inr found)
  show ?thesis
  proof (cases found)
    case None
    with Inr show ?thesis
      by (simp add: update_task_def Let_def db_close_session error_response_def)
  next
    case (Some task)
    define ts2 where
      "ts2 = set_description (set_title (task, get_db_session_for_tool d) new_title) new_description"
    have c2: "db_close (snd ts2) = d"
      by (simp add: ts2_def db_close_set_description db_close_set_title db_close_session)
    have u: "update_task strptime upper d task_id title_match new_title new_description new_status
                new_due_date new_priority =
       (case set_status upper ts2 new_status of
             Inl r \<Rightarrow> (r, db_close (snd ts2))
           | Inr ts3 \<Rightarrow>
               (case set_due_date strptime ts3 new_due_date of
                  Inl r \<Rightarrow> (r, db_close (snd ts3))
                | Inr ts4 \<Rightarrow>
                    (case set_priority upper ts4 new_priority of
                       Inl r \<Rightarrow> (r, db_close (snd ts4))
                     | Inr ts5 \<Rightarrow>
                         (case db_commit (snd ts5) of
                            Inl e \<Rightarrow>
                              (error_response (''Failed to update task: '' @ str_exn e),
                               db_close (db_rollback (snd ts5)))
                          | Inr db6 \<Rightarrow>
                              (case db_refresh db6 (row_id (fst ts5)) of
                                 Inl e \<Rightarrow>
                                   (error_response (''Failed to update task: '' @ str_exn e),
                                    db_close (db_rollback db6))
                               | Inr t \<Rightarrow>
                                   (success_task (''Task '' @ quoted (row_title t)
                                                  @ '' updated successfully.'') t,
                                    db_close db6))))))"
      unfolding update_task_def Let_def ts2_def Inr Some by simp
    from set_status_cases [of upper ts2 new_status] show ?thesis
    proof (elim disjE exE conjE)
      fix r assume "set_status upper ts2 new_status = Inl r" "r_status r = Some ''error''"
      then show ?thesis by (simp add: u c2)
    next
      fix ts3 assume s3: "set_status upper ts2 new_status = Inr ts3"
        "db_close (snd ts3) = db_close (snd ts2)"
        "\<not> (truthy_str new_status \<and> TaskStatus_by_name (upper (the new_status)) = None)"
      from set_due_date_cases [of strptime ts3 new_due_date] show ?thesis
      proof (elim disjE exE conjE)
        fix r assume "set_due_date strptime ts3 new_due_date = Inl r" "r_status r = Some ''error''"
        then show ?thesis using s3 by (simp add: u c2)
      next
        fix ts4 assume s4: "set_due_date strptime ts3 new_due_date = Inr ts4"
          "db_close (snd ts4) = db_close (snd ts3)"
          "\<not> (truthy_str new_due_date \<and> strptime (the new_due_date) = None)"
        from set_priority_cases [of upper ts4 new_priority] show ?thesis
        proof (elim disjE exE conjE)
          fix r assume "set_priority upper ts4 new_priority = Inl r" "r_status r = Some ''error''"
          then show ?thesis using s3 s4 by (simp add: u c2)
        next
          fix ts5 assume "set_priority upper ts4 new_priority = Inr ts5"
            "\<not> (truthy_str new_priority \<and> TaskPriority_by_name (upper (the new_priority)) = None)"
          with inv s3(3) s4(3) show ?thesis by blast
        qed
      qed
    qed
  qed
qed

text \<open>
  Claim C8. A \<open>create_task\<close> call with an invalid priority or an invalid due date, and
  an \<open>update_task\<close> call with an invalid status, due date or priority, return an error
  result and leave the store exactly as it was: \<open>create_task\<close> stores no row, and the
  fields \<open>update_task\<close> has assigned on the loaded object before it met the invalid
  value are discarded with the session.
\<close>

theorem invalid_values_persist_nothing:
  "((truthy_str priority \<and> TaskPriority_by_name (upper (the priority)) = None)
      \<or> (truthy_str due_date \<and> strptime (the due_date) = None)
     \<longrightarrow> snd (create_task strptime upper d title description due_date priority) = d
         \<and> r_status (fst (create_task strptime upper d title description due_date priority))
             = Some ''error'')
   \<and> ((truthy_str new_status \<and> TaskStatus_by_name (upper (the new_status)) = None)
      \<or> (truthy_str new_due_date \<and> strptime (the new_due_date) = None)
      \<or> (truthy_str new_priority \<and> TaskPriority_by_name (upper (the new_priority)) = None)
     \<longrightarrow> snd (update_task strptime upper d task_id title_match new_title new_description new_status
                new_due_date new_priority) = d
         \<and> r_status (fst (update_task strptime upper d task_id title_match new_title new_description
                new_status new_due_date new_priority)) = Some ''error'')"
proof (intro conjI impI)
  assume "(truthy_str priority \<and> TaskPriority_by_name (upper (the priority)) = None)
      \<or> (truthy_str due_date \<and> strptime (the due_date) = None)"
  then show "snd (create_task strptime upper d title description due_date priority) = d"
    and "r_status (fst (create_task strptime upper d title description due_date priority))
             = Some ''error''"
    using create_task_invalid [of priority upper due_date strptime d title description]
    by simp_all
next
  assume "(truthy_str new_status \<and> TaskStatus_by_name (upper (the new_status)) = None)
      \<or> (truthy_str new_due_date \<and> strptime (the new_due_date) = None)
      \<or> (truthy_str new_priority \<and> TaskPriority_by_name (upper (the new_priority)) = None)"
  then show "snd (update_task strptime upper d task_id title_match new_title new_description
                new_status new_due_date new_priority) = d"
    and "r_status (fst (update_task strptime upper d task_id title_match new_title
                new_description new_status new_due_date new_priority)) = Some ''error''"
    using update_task_invalid [of new_status upper new_due_date strptime new_priority d task_id
        title_match new_title new_description]
    by simp_all
qed

text \<open>
  The theorem at \<open>create_task(title="buy milk", priority="urgentt")\<close> and at
  \<open>update_task(task_id=1, new_title="Buy bread", new_due_date="02/08/2025")\<close>: the title
  assigned before the bad date is not stored.
\<close>

theorem invalid_values_persist_nothing_witness:
  "snd (create_task strptime_example upper_ascii db_milk ''buy milk'' None None (Some ''urgentt'')) = db_milk
   \<and> r_status (fst (create_task strptime_example upper_ascii db_milk ''buy milk'' None None (Some ''urgentt'')))
       = Some ''error''
   \<and> snd (update_task strptime_example upper_ascii db_milk (Some 1) None (Some ''Buy bread'') None None
            (Some ''02/08/2025'') None) = db_milk
   \<and> r_status (fst (update_task strptime_example upper_ascii db_milk (Some 1) None (Some ''Buy bread'') None None
            (Some ''02/08/2025'') None)) = Some ''error''"
proof -
  have h1: "(truthy_str (Some ''urgentt'') \<and> TaskPriority_by_name (upper_ascii (the (Some ''urgentt''))) = None)
      \<or> (truthy_str None \<and> strptime_example (the None) = None)"
    by code_simp
  have h2: "(truthy_str None \<and> TaskStatus_by_name (upper_ascii (the None)) = None)
      \<or> (truthy_str (Some ''02/08/2025'') \<and> strptime_example (the (Some ''02/08/2025'')) = None)
      \<or> (truthy_str None \<and> TaskPriority_by_name (upper_ascii (the None)) = None)"
    by (simp add: strptime_example_def)
  show ?thesis
    using invalid_values_persist_nothing [where priority = "Some ''urgentt''"
        and due_date = None and strptime = strptime_example and upper = upper_ascii
        and d = db_milk and title = "''buy milk''" and description = None
        and new_status = None and new_due_date = "Some ''02/08/2025''" and new_priority = None
        and task_id = "Some 1" and title_match = None and new_title = "Some ''Buy bread''"
        and new_description = None]
      h1 h2
    by blast
qed


section \<open>Rendering a list of tool outcomes\<close>

lemma final_lines_dicts:
  "final_lines get_raises (map (\<lambda>(n, r). (n, Dict_result r)) items) =
     Inr (map (\<lambda>(n, r). case r_message r of
                           Some m \<Rightarrow> m
                         | None \<Rightarrow> (if r_status r = Some ''success'' then ''Success'' else ''Error''))
            items)"
  by (induction items) (auto split: option.splits)

lemma tool_messages_dicts:
  "tool_messages get_raises (map (\<lambda>(n, r). (n, Dict_result r)) items) =
     Inr (concat (map (\<lambda>(n, r). tool_feedback n r
                         # (if status_msg r = ''success'' \<and> r_task r \<noteq> None
                            then [task_summary (the (r_task r))] else [])) items))"
  by (induction items) (auto split: option.splits)

text \<open>
  Claim C9, as amended. For a structured tool-outcome list of result dictionaries,
  \<open>get_final_response\<close> returns one line per result, the result's message (or
  "Success", respectively "Error", when it has none), joined by newlines. The websocket
  endpoint's rendering returns for every result the line
  "Tool '<name>' executed: Status: <status>, Message: <message>", followed, for a success
  result carrying a task, by the line
  "Task details: Title: .., Status: .., Priority: ..[, ID: ..]", all joined by newlines.
\<close>

theorem render_outcome_lines:
  "get_final_response get_raises
     (result\<lparr>agent_outcome := Outcome_list (map (\<lambda>(n, r). (n, Dict_result r)) items)\<rparr>)
     = Inr (join_lines (map (\<lambda>(n, r). case r_message r of
                           Some m \<Rightarrow> m
                         | None \<Rightarrow> (if r_status r = Some ''success'' then ''Success'' else ''Error''))
            items))
   \<and> ai_response_content get_raises (Outcome_list (map (\<lambda>(n, r). (n, Dict_result r)) items))
     = Inr (join_lines (concat (map (\<lambda>(n, r). tool_feedback n r
                         # (if status_msg r = ''success'' \<and> r_task r \<noteq> None
                            then [task_summary (the (r_task r))] else [])) items)))"
  by (simp add: get_final_response_def ai_response_content_def final_lines_dicts
      tool_messages_dicts)

text \<open>
  The theorem at a list of two results: a created task and a failed update.
\<close>

theorem render_outcome_lines_witness:
  "get_final_response get_none
     ((state_with Outcome_None)\<lparr>agent_outcome := Outcome_list (map (\<lambda>(n, r). (n, Dict_result r)) outcome_two)\<rparr>)
     = Inr (''Task '' @ quoted ''buy milk'' @ '' created successfully with ID 1.'' @ [CHR 0x0A]
            @ ''Task not found with ID 999.'')
   \<and> ai_response_content get_none (Outcome_list (map (\<lambda>(n, r). (n, Dict_result r)) outcome_two))
     = Inr (''Tool '' @ quoted ''create_task'' @ '' executed: Status: success, Message: Task ''
            @ quoted ''buy milk'' @ '' created successfully with ID 1.'' @ [CHR 0x0A]
            @ ''Task details: Title: buy milk, Status: todo, Priority: medium, ID: 1''
            @ [CHR 0x0A]
            @ ''Tool '' @ quoted ''update_task''
            @ '' executed: Status: error, Message: Task not found with ID 999.'')"
proof -
  have a: "join_lines (map (\<lambda>(n, r). case r_message r of
                           Some m \<Rightarrow> m
                         | None \<Rightarrow> (if r_status r = Some ''success'' then ''Success'' else ''Error''))
            outcome_two)
      = ''Task '' @ quoted ''buy milk'' @ '' created successfully with ID 1.'' @ [CHR 0x0A]
            @ ''Task not found with ID 999.''"
    by code_simp
  have b: "join_lines (concat (map (\<lambda>(n, r). tool_feedback n r
                         # (if status_msg r = ''success'' \<and> r_task r \<noteq> None
                            then [task_summary (the (r_task r))] else [])) outcome_two))
      = ''Tool '' @ quoted ''create_task'' @ '' executed: Status: success, Message: Task ''
            @ quoted ''buy milk'' @ '' created successfully with ID 1.'' @ [CHR 0x0A]
            @ ''Task details: Title: buy milk, Status: todo, Priority: medium, ID: 1''
            @ [CHR 0x0A]
            @ ''Tool '' @ quoted ''update_task''
            @ '' executed: Status: error, Message: Task not found with ID 999.''"
    by code_simp
  show ?thesis
    using render_outcome_lines [where result = "state_with Outcome_None" and items = outcome_two
        and get_raises = get_none]
    unfolding a b .
qed

text \<open>
  Claim C9 as stated fails for \<open>get_final_response\<close>: for one success result carrying
  a task it returns the result's message alone, one line without a summary of the record
  and without a line naming the tool.
\<close>

theorem get_final_response_no_summary_counterexample:
  "get_final_response get_none (state_with (Outcome_list [(''create_task'',
      Dict_result (success_task (''Task '' @ quoted ''buy milk'' @ '' created successfully with ID 1.'')
         \<lparr>row_id = 1, row_title = ''buy milk'', row_description = None, row_status = TODO,
          row_due_date = None, row_priority = MEDIUM, row_created_at = 100,
          row_updated_at = 100\<rparr>))]))
   = Inr (''Task '' @ quoted ''buy milk'' @ '' created successfully with ID 1.'')"
  by code_simp


end
